theory Spec2Isabelle
  imports Main
begin

section \<open>Thrown values and asynchronous computations\<close>

text \<open>
  A JavaScript \<^verbatim>\<open>throw\<close> (or a rejected promise) carries an arbitrary value.  The
  source builds \<^verbatim>\<open>new Error(msg)\<close> and, through \<^verbatim>\<open>HTTPError.handleErrorResponse\<close>,
  an \<^verbatim>\<open>HTTPError\<close> (a subclass of \<^verbatim>\<open>Error\<close>) for a response status; callbacks and the
  transport may throw anything, also a value that is no \<^verbatim>\<open>Error\<close> instance
  (\<^verbatim>\<open>Thrown\<close>).
\<close>

datatype exn = Error string | HTTPError nat | Thrown string

fun instanceof_Error :: "exn \<Rightarrow> bool" where
  "instanceof_Error (Error m) = True"
| "instanceof_Error (HTTPError n) = True"
| "instanceof_Error (Thrown v) = False"

text \<open>
  An \<^verbatim>\<open>async\<close> computation over a world \<open>'w\<close> (the network, the caller's callbacks and
  every variable a closure captured): it ends with a thrown value or a result, and
  leaves a new world.
\<close>

type_synonym ('a, 'w) promise = "'w \<Rightarrow> (exn + 'a) \<times> 'w"

definition resolve :: "'a \<Rightarrow> ('a, 'w) promise" where
  "resolve x w = (Inr x, w)"

definition reject :: "exn \<Rightarrow> ('a, 'w) promise" where
  "reject e w = (Inl e, w)"

definition await :: "('a, 'w) promise \<Rightarrow> ('a \<Rightarrow> ('b, 'w) promise) \<Rightarrow> ('b, 'w) promise" where
  "await m f w = (case m w of (Inl e, w') \<Rightarrow> (Inl e, w') | (Inr x, w') \<Rightarrow> f x w')"

section \<open>Requests, responses and the helpers the actions import\<close>

type_synonym AbortSignal = nat

datatype 's URL = URL string 's

text \<open>
  A plain object used as \<^verbatim>\<open>Record<string, string>\<close> keeps its keys in insertion order;
  assigning to a key that exists replaces the value in place.
\<close>

type_synonym headers = "(string \<times> string) list"

fun set_prop :: "string \<Rightarrow> string \<Rightarrow> headers \<Rightarrow> headers" where
  "set_prop k v [] = [(k, v)]"
| "set_prop k v (p # ps) = (if fst p = k then (k, v) # ps else p # set_prop k v ps)"

record ('s, 'b) request =
  rq_url :: "'s URL"
  rq_method :: string
  rq_signal :: "AbortSignal option"
  rq_headers :: headers
  rq_body :: "'b option"

text \<open>
  A response: its status, its headers, and what \<^verbatim>\<open>res.json()\<close> gives (it throws on a
  body that is no JSON; a JSON value that is falsy, such as \<^verbatim>\<open>null\<close>, is \<open>None\<close>).
\<close>

record 'd response =
  status :: nat
  res_headers :: headers
  res_json :: "exn + 'd option"

definition json :: "'d response \<Rightarrow> ('d option, 'w) promise" where
  "json res = (case res_json res of Inl e \<Rightarrow> reject e | Inr v \<Rightarrow> resolve v)"

text \<open>
  The pure helpers imported from \<^verbatim>\<open>../helpers.js\<close>, \<^verbatim>\<open>../auth.js\<close> and
  \<^verbatim>\<open>@cashu/cashu-ts\<close> are not part of the sources at hand; they are parameters of
  the model.
\<close>

record ('s, 'b, 'ev, 'tok, 'pr) helpers =
  getBlobSha256 :: "'b \<Rightarrow> string"
  getBlobSize :: "'b \<Rightarrow> nat"
  getBlobType :: "'b \<Rightarrow> string option"
  getPaymentRequestFromHeaders :: "headers \<Rightarrow> 'pr"
  encodeAuthorizationHeader :: "'ev \<Rightarrow> string"
  getEncodedToken :: "'tok \<Rightarrow> string"
  doseAuthMatchUpload :: "'ev \<Rightarrow> 's \<Rightarrow> 'b \<Rightarrow> bool"

text \<open>\<^verbatim>\<open>String(n)\<close> of a non-negative integer: its decimal digits.\<close>

definition digit :: "nat \<Rightarrow> char" where
  "digit d = ''0123456789'' ! d"

fun String_nat :: "nat \<Rightarrow> string" where
  "String_nat n = (if n < 10 then [digit n] else String_nat (n div 10) @ [digit (n mod 10)])"

declare String_nat.simps [simp del]

text \<open>\<^verbatim>\<open>if (type)\<close>: a string is truthy unless it is undefined or empty.\<close>

fun truthy_string :: "string option \<Rightarrow> bool" where
  "truthy_string None = False"
| "truthy_string (Some t) = (t \<noteq> [])"

text \<open>
  Modelled from the spec: \<^verbatim>\<open>HTTPError.handleErrorResponse\<close> of \<^verbatim>\<open>../error.js\<close> is
  missing from the sources.  The status code contract of the specification reads
  ``2xx success; ... anything else, terminal generic HTTP error carrying status and
  body'': a response outside 200..299 throws an \<^verbatim>\<open>HTTPError\<close> with that status.
\<close>

definition handleErrorResponse :: "'d response \<Rightarrow> (unit, 'w) promise" where
  "handleErrorResponse res =
     (if 200 \<le> status res \<and> status res < 300 then resolve ()
      else reject (HTTPError (status res)))"

text \<open>
  Modelled from the spec: \<^verbatim>\<open>fetchWithHandlers\<close> of \<^verbatim>\<open>../fetch.js\<close> is missing from the
  sources.  Following the challenge idiom of the specification (a status selects its
  resolution, whose retried request replaces the first response) it performs the
  request and, when a handler is registered for the status received, returns what
  that handler returns; otherwise it returns the response as it is.
\<close>

definition fetchWithHandlers ::
  "(('s, 'b) request \<Rightarrow> ('d response, 'w) promise) \<Rightarrow> ('s, 'b) request \<Rightarrow>
   (nat \<rightharpoonup> ('d response \<Rightarrow> ('d response, 'w) promise)) \<Rightarrow> ('d response, 'w) promise" where
  "fetchWithHandlers fetch init handlers =
     await (fetch init) (\<lambda>res.
       case handlers (status res) of
         None \<Rightarrow> resolve res
       | Some handler \<Rightarrow> handler res)"

section \<open>uploadBlob\<close>

text \<open>
  \<^verbatim>\<open>UploadOptions\<close>; every field is optional, and a call without \<^verbatim>\<open>opts\<close> is the
  record with every field \<open>None\<close>.  The two callbacks take different arguments in
  the two revisions of the action, so their types are parameters.
\<close>

record ('ev, 'onp, 'ona) UploadOptions =
  signal :: "AbortSignal option"
  auth :: "'ev option"
  onPayment :: "'onp option"
  onAuth :: "'ona option"

text \<open>
  \<^verbatim>\<open>opts?.auth || (await opts?.onAuth?.(...))\<close>, the callback already applied to its
  arguments: the override when there is one, else what the callback resolves to, else
  undefined.
\<close>

definition auth_or_onAuth ::
  "'ev option \<Rightarrow> ('ev, 'w) promise option \<Rightarrow> ('ev option, 'w) promise" where
  "auth_or_onAuth a cb =
     (case a of
        Some ev \<Rightarrow> resolve (Some ev)
      | None \<Rightarrow>
         (case cb of
            None \<Rightarrow> resolve None
          | Some ask \<Rightarrow> await ask (\<lambda>ev. resolve (Some ev))))"

text \<open>
  The first revision of \<^verbatim>\<open>src/actions/upload.ts\<close> (lines 19 to 89): a HEAD check
  through \<^verbatim>\<open>fetchWithHandlers\<close> with a handler for 402 and one for 403, then the
  ``free upload''.
\<close>

definition uploadBlob ::
  "('s, 'b, 'ev, 'tok, 'pr) helpers \<Rightarrow> (('s, 'b) request \<Rightarrow> ('d response, 'w) promise) \<Rightarrow>
   's \<Rightarrow> 'b \<Rightarrow>
   ('ev, 's \<Rightarrow> 'b \<Rightarrow> 'pr \<Rightarrow> ('tok, 'w) promise, 's \<Rightarrow> 'b \<Rightarrow> ('ev, 'w) promise) UploadOptions \<Rightarrow>
   ('d option, 'w) promise" where
  "uploadBlob h fetch server blob opts =
     (let url = URL ''/upload'' server;
          hash = getBlobSha256 h blob;
          headers0 = [(''X-SHA-256'', hash), (''X-Content-Length'', String_nat (getBlobSize h blob))];
          type = getBlobType h blob;
          headers = (if truthy_string type then set_prop ''X-Content-Type'' (the type) headers0
                     else headers0)
      in await
           (fetchWithHandlers fetch
              \<lparr>rq_url = url, rq_method = ''HEAD'', rq_signal = signal opts,
               rq_headers = headers, rq_body = None\<rparr>
              [402 \<mapsto> (\<lambda>res.
                  case onPayment opts of
                    None \<Rightarrow> reject (Error ''Missing payment handler'')
                  | Some pay \<Rightarrow>
                      (let request = getPaymentRequestFromHeaders h (res_headers res)
                       in await (pay server blob request) (\<lambda>token.
                            let payment = getEncodedToken h token
                            in fetch \<lparr>rq_url = url, rq_method = ''PUT'', rq_signal = signal opts,
                                      rq_headers = [(''X-Cashu'', payment)],
                                      rq_body = Some blob\<rparr>))),
               403 \<mapsto> (\<lambda>res.
                  await (auth_or_onAuth (auth opts)
                           (map_option (\<lambda>ask. ask server blob) (onAuth opts))) (\<lambda>a.
                    case a of
                      None \<Rightarrow> reject (Error ''Missing auth handler'')
                    | Some ev \<Rightarrow>
                        fetch \<lparr>rq_url = url, rq_method = ''PUT'', rq_signal = signal opts,
                               rq_headers = [(''Authorization'', encodeAuthorizationHeader h ev)],
                               rq_body = Some blob\<rparr>))])
           (\<lambda>check. await (handleErrorResponse check) (\<lambda>_.
              await (fetch \<lparr>rq_url = url, rq_method = ''PUT'', rq_signal = signal opts,
                             rq_headers = [], rq_body = Some blob\<rparr>) (\<lambda>upload.
                await (handleErrorResponse upload) (\<lambda>_. json upload)))))"

text \<open>
  The second revision of the same file (lines 203 to 271): the credential is taken or
  asked for before the check, and the status of the check is dispatched by a
  \<^verbatim>\<open>switch\<close>.  Its callbacks also receive the hash.
\<close>

definition uploadBlob_2 ::
  "('s, 'b, 'ev, 'tok, 'pr) helpers \<Rightarrow> (('s, 'b) request \<Rightarrow> ('d response, 'w) promise) \<Rightarrow>
   's \<Rightarrow> 'b \<Rightarrow>
   ('ev, 's \<Rightarrow> string \<Rightarrow> 'b \<Rightarrow> 'pr \<Rightarrow> ('tok, 'w) promise,
    's \<Rightarrow> string \<Rightarrow> 'b \<Rightarrow> ('ev, 'w) promise) UploadOptions \<Rightarrow>
   ('d option, 'w) promise" where
  "uploadBlob_2 h fetch server blob opts =
     (let url = URL ''/upload'' server;
          sha256 = getBlobSha256 h blob;
          headers0 = [(''X-SHA-256'', sha256)]
      in await (auth_or_onAuth (auth opts)
                  (map_option (\<lambda>ask. ask server sha256 blob) (onAuth opts))) (\<lambda>a.
           let headers = (case a of
                            None \<Rightarrow> headers0
                          | Some ev \<Rightarrow> set_prop ''Authorization'' (encodeAuthorizationHeader h ev) headers0);
               checkHeaders0 = set_prop ''X-Content-Length'' (String_nat (getBlobSize h blob)) headers;
               type = getBlobType h blob;
               checkHeaders = (if truthy_string type
                               then set_prop ''X-Content-Type'' (the type) checkHeaders0
                               else checkHeaders0)
           in await (fetch \<lparr>rq_url = url, rq_method = ''HEAD'', rq_signal = signal opts,
                            rq_headers = checkHeaders, rq_body = None\<rparr>) (\<lambda>firstTry.
                await
                  (if status firstTry = 401 then
                     (case a of
                        None \<Rightarrow> reject (Error ''Missing auth handler'')
                      | Some ev \<Rightarrow> reject (Error ''Unable to authenticate''))
                   else if status firstTry = 402 then
                     (case onPayment opts of
                        None \<Rightarrow> reject (Error ''Missing payment handler'')
                      | Some pay \<Rightarrow>
                          (let request = getPaymentRequestFromHeaders h (res_headers firstTry)
                           in await (pay server sha256 blob request) (\<lambda>token.
                                let payment = getEncodedToken h token
                                in resolve (set_prop ''X-Cashu'' payment headers))))
                   else if status firstTry = 403 then reject (Error ''Unauthorized'')
                   else resolve headers) (\<lambda>headers.
                  await (fetch \<lparr>rq_url = url, rq_method = ''PUT'', rq_signal = signal opts,
                                 rq_headers = headers, rq_body = Some blob\<rparr>) (\<lambda>upload.
                    await (handleErrorResponse upload) (\<lambda>_. json upload))))))"

section \<open>multiServerUpload\<close>

text \<open>
  \<^verbatim>\<open>MultiServerUploadOptions\<close> extends \<^verbatim>\<open>UploadOptions\<close> by the two observers.
\<close>

record ('ev, 'onp, 'ona, 'onu, 'one) MultiServerUploadOptions =
  "('ev, 'onp, 'ona) UploadOptions" +
  onUpload :: "'onu option"
  onError :: "'one option"

text \<open>
  The two handlers are closures over \<^verbatim>\<open>authEvents\<close>, a variable of the run that
  \<^verbatim>\<open>handleAuthRequest\<close> reads and extends.  Whatever the handlers are passed to works
  on the caller's world together with that variable.
\<close>

record ('ev, 'w) closure =
  authEvents :: "'ev list"
  world :: 'w

definition outside :: "('a, 'w) promise \<Rightarrow> ('a, ('ev, 'w) closure) promise" where
  "outside m c = (case m (world c) of (r, w') \<Rightarrow> (r, c\<lparr>world := w'\<rparr>))"

text \<open>
  Lines 113 to 125.  The \<^verbatim>\<open>for\<close> loop returns the first cached event that
  \<^verbatim>\<open>doseAuthMatchUpload\<close> accepts, which is \<^const>\<open>find\<close>.
\<close>

definition handleAuthRequest ::
  "('s, 'b, 'ev, 'tok, 'pr) helpers \<Rightarrow> 'b \<Rightarrow>
   ('ev, 'onp, 's \<Rightarrow> 'b \<Rightarrow> ('ev, 'w) promise, 'z) UploadOptions_scheme \<Rightarrow>
   's \<Rightarrow> ('ev, ('ev, 'w) closure) promise" where
  "handleAuthRequest h blob opts server c =
     (case find (\<lambda>a. doseAuthMatchUpload h a server blob) (authEvents c) of
        Some a \<Rightarrow> resolve a c
      | None \<Rightarrow>
         (case onAuth opts of
            Some ask \<Rightarrow>
              await (outside (ask server blob))
                (\<lambda>a c'. resolve a (c'\<lparr>authEvents := authEvents c' @ [a]\<rparr>)) c
          | None \<Rightarrow> reject (Error ''Missing onAuth handler'') c))"

text \<open>
  Lines 128 to 132.  The second parameter \<^verbatim>\<open>_b\<close> of the source is never read and is
  left out; the blob handed to the callback is the one of the run.
\<close>

definition handlePaymentRequest ::
  "'b \<Rightarrow> ('ev, 's \<Rightarrow> 'b \<Rightarrow> 'pr \<Rightarrow> ('tok, 'w) promise, 'ona, 'z) UploadOptions_scheme \<Rightarrow>
   's \<Rightarrow> 'pr \<Rightarrow> ('tok, ('ev, 'w) closure) promise" where
  "handlePaymentRequest blob opts server request =
     (case onPayment opts of
        None \<Rightarrow> reject (Error ''Missing payment handler'')
      | Some pay \<Rightarrow> outside (pay server blob request))"

text \<open>
  The calls the loop makes, in order, kept as a history beside the variables of the
  source (it is written and never read): each \<^verbatim>\<open>mirrorBlob\<close> call with the descriptor
  and the signal it was given and its outcome, each \<^verbatim>\<open>uploadBlob\<close> call with its
  outcome, and each call of an observer.
\<close>

datatype ('s, 'd) call =
    MirrorCall 's 'd "AbortSignal option" "exn + 'd option"
  | UploadCall 's "exn + 'd option"
  | OnUpload 's
  | OnError 's exn

record ('s, 'd, 'ev, 'w) run =
  initialUpload :: "'d option"
  results :: "'s \<rightharpoonup> 'd option"
  mem :: "('ev, 'w) closure"
  calls :: "('s, 'd) call list"

definition inside :: "('a, 'w) promise \<Rightarrow> ('a, ('s, 'd, 'ev, 'w) run) promise" where
  "inside m r = (case m (world (mem r)) of (x, w') \<Rightarrow> (x, r\<lparr>mem := (mem r)\<lparr>world := w'\<rparr>\<rparr>))"

type_synonym ('s, 'b, 'ev, 'tok, 'pr, 'w) MultiOptions =
  "('ev, 's \<Rightarrow> 'b \<Rightarrow> 'pr \<Rightarrow> ('tok, 'w) promise, 's \<Rightarrow> 'b \<Rightarrow> ('ev, 'w) promise,
    's \<Rightarrow> 'b \<Rightarrow> (unit, 'w) promise, 's \<Rightarrow> 'b \<Rightarrow> exn \<Rightarrow> (unit, 'w) promise)
   MultiServerUploadOptions"

text \<open>
  \<^verbatim>\<open>mirrorBlob\<close> of \<^verbatim>\<open>./mirror.js\<close> is missing from the sources: it is a parameter, any
  computation over the closure's world that ends with a thrown value or with what it
  returns (\<open>None\<close> for a falsy value).
\<close>

type_synonym ('s, 'd, 'ev, 'tok, 'pr, 'w) mirrorBlob =
  "'s \<Rightarrow> 'd \<Rightarrow>
   ('ev, 's \<Rightarrow> 'pr \<Rightarrow> ('tok, ('ev, 'w) closure) promise,
    's \<Rightarrow> ('ev, ('ev, 'w) closure) promise) UploadOptions \<Rightarrow>
   ('d option, ('ev, 'w) closure) promise"

text \<open>Lines 140 to 148: the mirror attempt, whose failure is dropped.\<close>

definition attemptMirror ::
  "('s, 'd, 'ev, 'tok, 'pr, 'w) mirrorBlob \<Rightarrow> ('s, 'b, 'ev, 'tok, 'pr) helpers \<Rightarrow> 'b \<Rightarrow>
   ('s, 'b, 'ev, 'tok, 'pr, 'w) MultiOptions \<Rightarrow> 's \<Rightarrow>
   ('s, 'd, 'ev, 'w) run \<Rightarrow> 'd option \<times> ('s, 'd, 'ev, 'w) run" where
  "attemptMirror mirrorBlob h blob opts server r =
     (case initialUpload r of
        None \<Rightarrow> (None, r)
      | Some d \<Rightarrow>
         (case mirrorBlob server d
                 \<lparr>signal = signal opts, auth = None,
                  onPayment = Some (handlePaymentRequest blob opts),
                  onAuth = Some (handleAuthRequest h blob opts)\<rparr> (mem r) of
            (res, c) \<Rightarrow>
              (case res of Inl e \<Rightarrow> None | Inr metadata \<Rightarrow> metadata,
               r\<lparr>mem := c, calls := calls r @ [MirrorCall server d (signal opts) res]\<rparr>)))"

text \<open>Lines 160 to 164: save the result and tell the observer.\<close>

definition saveResult ::
  "'b \<Rightarrow> ('s, 'b, 'ev, 'tok, 'pr, 'w) MultiOptions \<Rightarrow> 's \<Rightarrow> 'd option \<Rightarrow>
   (unit, ('s, 'd, 'ev, 'w) run) promise" where
  "saveResult blob opts server metadata r =
     (let r1 = r\<lparr>results := (results r)(server \<mapsto> metadata)\<rparr>
      in case onUpload opts of
           None \<Rightarrow> resolve () r1
         | Some tell \<Rightarrow> inside (tell server blob) (r1\<lparr>calls := calls r1 @ [OnUpload server]\<rparr>))"

text \<open>Lines 137 to 164: the body of the \<^verbatim>\<open>try\<close>.\<close>

definition tryServer ::
  "('s, 'd, 'ev, 'tok, 'pr, 'w) mirrorBlob \<Rightarrow> ('s, 'b, 'ev, 'tok, 'pr) helpers \<Rightarrow>
   (('s, 'b) request \<Rightarrow> ('d response, 'w) promise) \<Rightarrow> 'b \<Rightarrow>
   ('s, 'b, 'ev, 'tok, 'pr, 'w) MultiOptions \<Rightarrow> 's \<Rightarrow>
   (unit, ('s, 'd, 'ev, 'w) run) promise" where
  "tryServer mirrorBlob h fetch blob opts server r =
     (case attemptMirror mirrorBlob h blob opts server r of
        (Some metadata, r1) \<Rightarrow> saveResult blob opts server (Some metadata) r1
      | (None, r1) \<Rightarrow>
         (case uploadBlob h (\<lambda>init. outside (fetch init)) server blob
                 \<lparr>signal = None, auth = None,
                  onPayment = Some (\<lambda>s b request. handlePaymentRequest blob opts s request),
                  onAuth = Some (\<lambda>s b. handleAuthRequest h blob opts s)\<rparr> (mem r1) of
            (res, c) \<Rightarrow>
              (let r2 = r1\<lparr>mem := c, calls := calls r1 @ [UploadCall server res]\<rparr>
               in case res of
                    Inl e \<Rightarrow> (Inl e, r2)
                  | Inr metadata \<Rightarrow>
                      saveResult blob opts server metadata
                        (case initialUpload r2 of
                           None \<Rightarrow> r2\<lparr>initialUpload := metadata\<rparr>
                         | Some d \<Rightarrow> r2))))"

text \<open>Lines 136 to 168: one turn of the loop, the \<^verbatim>\<open>try\<close> with its \<^verbatim>\<open>catch\<close>.\<close>

definition forServer ::
  "('s, 'd, 'ev, 'tok, 'pr, 'w) mirrorBlob \<Rightarrow> ('s, 'b, 'ev, 'tok, 'pr) helpers \<Rightarrow>
   (('s, 'b) request \<Rightarrow> ('d response, 'w) promise) \<Rightarrow> 'b \<Rightarrow>
   ('s, 'b, 'ev, 'tok, 'pr, 'w) MultiOptions \<Rightarrow> 's \<Rightarrow>
   (unit, ('s, 'd, 'ev, 'w) run) promise" where
  "forServer mirrorBlob h fetch blob opts server r =
     (case tryServer mirrorBlob h fetch blob opts server r of
        (Inr u, r1) \<Rightarrow> (Inr u, r1)
      | (Inl error, r1) \<Rightarrow>
          (if instanceof_Error error then
             (case onError opts of
                None \<Rightarrow> resolve () r1
              | Some tell \<Rightarrow>
                  inside (tell server blob error) (r1\<lparr>calls := calls r1 @ [OnError server error]\<rparr>))
           else resolve () r1))"

text \<open>\<^verbatim>\<open>for (const server of servers)\<close> over a finite Array or Set, as a list.\<close>

fun forOf :: "('s \<Rightarrow> (unit, 'r) promise) \<Rightarrow> 's list \<Rightarrow> (unit, 'r) promise" where
  "forOf body [] r = (Inr (), r)"
| "forOf body (server # servers) r =
     (case body server r of
        (Inl e, r1) \<Rightarrow> (Inl e, r1)
      | (Inr u, r1) \<Rightarrow> forOf body servers r1)"

definition startRun ::
  "('s, 'b, 'ev, 'tok, 'pr, 'w) MultiOptions \<Rightarrow> 'w \<Rightarrow> ('s, 'd, 'ev, 'w) run" where
  "startRun opts w =
     \<lparr>initialUpload = None, results = Map.empty,
      mem = \<lparr>authEvents = (case auth opts of Some a \<Rightarrow> [a] | None \<Rightarrow> []), world = w\<rparr>,
      calls = []\<rparr>"

text \<open>
  Lines 103 to 172.  The result is what the caller gets: a thrown value or the map
  \<^verbatim>\<open>results\<close>; the second component is the run at that moment.
\<close>

definition multiServerUpload ::
  "('s, 'd, 'ev, 'tok, 'pr, 'w) mirrorBlob \<Rightarrow> ('s, 'b, 'ev, 'tok, 'pr) helpers \<Rightarrow>
   (('s, 'b) request \<Rightarrow> ('d response, 'w) promise) \<Rightarrow> 's list \<Rightarrow> 'b \<Rightarrow>
   ('s, 'b, 'ev, 'tok, 'pr, 'w) MultiOptions \<Rightarrow> 'w \<Rightarrow>
   (exn + ('s \<rightharpoonup> 'd option)) \<times> ('s, 'd, 'ev, 'w) run" where
  "multiServerUpload mirrorBlob h fetch servers blob opts w =
     (case forOf (forServer mirrorBlob h fetch blob opts) servers (startRun opts w) of
        (Inl e, r) \<Rightarrow> (Inl e, r)
      | (Inr u, r) \<Rightarrow> (Inr (results r), r))"

section \<open>An observable world\<close>

text \<open>
  To count what an action does, the world is the history of its dealings with the
  outside: every request with its outcome, and every call of the caller's credential
  and payment callbacks with its outcome.  The servers and the caller are arbitrary
  functions of the history so far.
\<close>

datatype ('s, 'b, 'd, 'ev, 'tok, 'pr) io =
    Fetched "('s, 'b) request" "exn + 'd response"
  | AskedAuth 's 'b "exn + 'ev"
  | AskedPayment 's 'b 'pr "exn + 'tok"

type_synonym ('s, 'b, 'd, 'ev, 'tok, 'pr) history = "('s, 'b, 'd, 'ev, 'tok, 'pr) io list"

definition fetch_of ::
  "(('s, 'b, 'd, 'ev, 'tok, 'pr) history \<Rightarrow> ('s, 'b) request \<Rightarrow> exn + 'd response) \<Rightarrow>
   ('s, 'b) request \<Rightarrow> ('d response, ('s, 'b, 'd, 'ev, 'tok, 'pr) history) promise" where
  "fetch_of net init w = (net w init, w @ [Fetched init (net w init)])"

definition onAuth_of ::
  "(('s, 'b, 'd, 'ev, 'tok, 'pr) history \<Rightarrow> 's \<Rightarrow> 'b \<Rightarrow> exn + 'ev) \<Rightarrow>
   's \<Rightarrow> 'b \<Rightarrow> ('ev, ('s, 'b, 'd, 'ev, 'tok, 'pr) history) promise" where
  "onAuth_of signer server blob w =
     (signer w server blob, w @ [AskedAuth server blob (signer w server blob)])"

definition onPayment_of ::
  "(('s, 'b, 'd, 'ev, 'tok, 'pr) history \<Rightarrow> 's \<Rightarrow> 'b \<Rightarrow> 'pr \<Rightarrow> exn + 'tok) \<Rightarrow>
   's \<Rightarrow> 'b \<Rightarrow> 'pr \<Rightarrow> ('tok, ('s, 'b, 'd, 'ev, 'tok, 'pr) history) promise" where
  "onPayment_of payer server blob request w =
     (payer w server blob request,
      w @ [AskedPayment server blob request (payer w server blob request)])"

text \<open>The callbacks of the second revision are also handed the hash.\<close>

definition onAuth2_of ::
  "(('s, 'b, 'd, 'ev, 'tok, 'pr) history \<Rightarrow> 's \<Rightarrow> 'b \<Rightarrow> exn + 'ev) \<Rightarrow>
   's \<Rightarrow> string \<Rightarrow> 'b \<Rightarrow> ('ev, ('s, 'b, 'd, 'ev, 'tok, 'pr) history) promise" where
  "onAuth2_of signer server sha256 blob = onAuth_of signer server blob"

definition onPayment2_of ::
  "(('s, 'b, 'd, 'ev, 'tok, 'pr) history \<Rightarrow> 's \<Rightarrow> 'b \<Rightarrow> 'pr \<Rightarrow> exn + 'tok) \<Rightarrow>
   's \<Rightarrow> string \<Rightarrow> 'b \<Rightarrow> 'pr \<Rightarrow> ('tok, ('s, 'b, 'd, 'ev, 'tok, 'pr) history) promise" where
  "onPayment2_of payer server sha256 blob request = onPayment_of payer server blob request"

fun is_Fetched :: "('s, 'b, 'd, 'ev, 'tok, 'pr) io \<Rightarrow> bool" where
  "is_Fetched (Fetched init r) = True"
| "is_Fetched (AskedAuth s b r) = False"
| "is_Fetched (AskedPayment s b p r) = False"

fun is_AskedAuth :: "('s, 'b, 'd, 'ev, 'tok, 'pr) io \<Rightarrow> bool" where
  "is_AskedAuth (Fetched init r) = False"
| "is_AskedAuth (AskedAuth s b r) = True"
| "is_AskedAuth (AskedPayment s b p r) = False"

fun is_AskedPayment :: "('s, 'b, 'd, 'ev, 'tok, 'pr) io \<Rightarrow> bool" where
  "is_AskedPayment (Fetched init r) = False"
| "is_AskedPayment (AskedAuth s b r) = False"
| "is_AskedPayment (AskedPayment s b p r) = True"

text \<open>The requests of a history in order, and among them the commits (PUT).\<close>

fun requests :: "('s, 'b, 'd, 'ev, 'tok, 'pr) history \<Rightarrow> ('s, 'b) request list" where
  "requests [] = []"
| "requests (Fetched init r # es) = init # requests es"
| "requests (AskedAuth s b r # es) = requests es"
| "requests (AskedPayment s b p r # es) = requests es"

definition commits :: "('s, 'b, 'd, 'ev, 'tok, 'pr) history \<Rightarrow> ('s, 'b) request list" where
  "commits w = filter (\<lambda>init. rq_method init = ''PUT'') (requests w)"

text \<open>The part of a history after the first request.\<close>

definition after_first_request ::
  "('s, 'b, 'd, 'ev, 'tok, 'pr) history \<Rightarrow> ('s, 'b, 'd, 'ev, 'tok, 'pr) history" where
  "after_first_request w = dropWhile (\<lambda>e. \<not> is_Fetched e) w"

section \<open>Named parts of the two actions\<close>

text \<open>
  The values the two revisions bind on their way (\<^verbatim>\<open>headers\<close>, \<^verbatim>\<open>checkHeaders\<close>, the
  request of the check), and the second revision from the moment its credential is
  settled.  The actions are equal to their composition from these parts.
\<close>

definition checkHeaders :: "('s, 'b, 'ev, 'tok, 'pr) helpers \<Rightarrow> 'b \<Rightarrow> headers" where
  "checkHeaders h blob =
     (let headers0 = [(''X-SHA-256'', getBlobSha256 h blob),
                      (''X-Content-Length'', String_nat (getBlobSize h blob))]
      in if truthy_string (getBlobType h blob)
         then set_prop ''X-Content-Type'' (the (getBlobType h blob)) headers0
         else headers0)"

definition headers_2 :: "('s, 'b, 'ev, 'tok, 'pr) helpers \<Rightarrow> 'b \<Rightarrow> 'ev option \<Rightarrow> headers" where
  "headers_2 h blob a =
     (case a of
        None \<Rightarrow> [(''X-SHA-256'', getBlobSha256 h blob)]
      | Some ev \<Rightarrow>
          set_prop ''Authorization'' (encodeAuthorizationHeader h ev)
            [(''X-SHA-256'', getBlobSha256 h blob)])"

definition checkHeaders_2 :: "('s, 'b, 'ev, 'tok, 'pr) helpers \<Rightarrow> 'b \<Rightarrow> headers \<Rightarrow> headers" where
  "checkHeaders_2 h blob headers =
     (let checkHeaders0 = set_prop ''X-Content-Length'' (String_nat (getBlobSize h blob)) headers
      in if truthy_string (getBlobType h blob)
         then set_prop ''X-Content-Type'' (the (getBlobType h blob)) checkHeaders0
         else checkHeaders0)"

definition checkRequest_2 ::
  "('s, 'b, 'ev, 'tok, 'pr) helpers \<Rightarrow> 's \<Rightarrow> 'b \<Rightarrow> AbortSignal option \<Rightarrow> 'ev option \<Rightarrow>
   ('s, 'b) request" where
  "checkRequest_2 h server blob sg a =
     \<lparr>rq_url = URL ''/upload'' server, rq_method = ''HEAD'', rq_signal = sg,
      rq_headers = checkHeaders_2 h blob (headers_2 h blob a), rq_body = None\<rparr>"

definition uploadBlob_2_with ::
  "('s, 'b, 'ev, 'tok, 'pr) helpers \<Rightarrow> (('s, 'b) request \<Rightarrow> ('d response, 'w) promise) \<Rightarrow>
   's \<Rightarrow> 'b \<Rightarrow>
   ('ev, 's \<Rightarrow> string \<Rightarrow> 'b \<Rightarrow> 'pr \<Rightarrow> ('tok, 'w) promise,
    's \<Rightarrow> string \<Rightarrow> 'b \<Rightarrow> ('ev, 'w) promise) UploadOptions \<Rightarrow>
   'ev option \<Rightarrow> ('d option, 'w) promise" where
  "uploadBlob_2_with h fetch server blob opts a =
     await (fetch (checkRequest_2 h server blob (signal opts) a)) (\<lambda>firstTry.
       await
         (if status firstTry = 401 then
            (case a of
               None \<Rightarrow> reject (Error ''Missing auth handler'')
             | Some ev \<Rightarrow> reject (Error ''Unable to authenticate''))
          else if status firstTry = 402 then
            (case onPayment opts of
               None \<Rightarrow> reject (Error ''Missing payment handler'')
             | Some pay \<Rightarrow>
                 await (pay server (getBlobSha256 h blob) blob
                          (getPaymentRequestFromHeaders h (res_headers firstTry))) (\<lambda>token.
                   resolve (set_prop ''X-Cashu'' (getEncodedToken h token)
                              (headers_2 h blob a))))
          else if status firstTry = 403 then reject (Error ''Unauthorized'')
          else resolve (headers_2 h blob a)) (\<lambda>headers.
         await (fetch \<lparr>rq_url = URL ''/upload'' server, rq_method = ''PUT'',
                        rq_signal = signal opts, rq_headers = headers,
                        rq_body = Some blob\<rparr>) (\<lambda>upload.
           await (handleErrorResponse upload) (\<lambda>_. json upload))))"

section \<open>Reading a history\<close>

text \<open>
  The credentials and the tokens the callbacks resolved to, the payment requests they
  were asked for, what a request was answered with, and the header names of a request.
\<close>

fun credentials :: "('s, 'b, 'd, 'ev, 'tok, 'pr) history \<Rightarrow> 'ev list" where
  "credentials [] = []"
| "credentials (AskedAuth s b (Inr ev) # es) = ev # credentials es"
| "credentials (e # es) = credentials es"

fun tokens :: "('s, 'b, 'd, 'ev, 'tok, 'pr) history \<Rightarrow> 'tok list" where
  "tokens [] = []"
| "tokens (AskedPayment s b p (Inr tok) # es) = tok # tokens es"
| "tokens (e # es) = tokens es"

fun payments :: "('s, 'b, 'd, 'ev, 'tok, 'pr) history \<Rightarrow> ('s \<times> 'b \<times> 'pr) list" where
  "payments [] = []"
| "payments (AskedPayment s b p r # es) = (s, b, p) # payments es"
| "payments (e # es) = payments es"

fun answered :: "('s, 'b, 'd, 'ev, 'tok, 'pr) io \<Rightarrow> (string \<times> nat) option" where
  "answered (Fetched init (Inr res)) = Some (rq_method init, status res)"
| "answered e = None"

definition header_names :: "('s, 'b) request \<Rightarrow> string list" where
  "header_names init = map fst (rq_headers init)"

section \<open>Reading the calls of a run\<close>

text \<open>
  What a call returned: a descriptor or not (\<^verbatim>\<open>if (!metadata)\<close>), and what an upload
  leaves in \<^verbatim>\<open>initialUpload\<close> when that is still unset.
\<close>

fun is_descriptor :: "exn + 'd option \<Rightarrow> bool" where
  "is_descriptor (Inr (Some m)) = True"
| "is_descriptor (Inr None) = False"
| "is_descriptor (Inl e) = False"

fun stored_by :: "exn + 'd option \<Rightarrow> 'd option" where
  "stored_by (Inr m) = m"
| "stored_by (Inl e) = None"

fun is_observer :: "('s, 'd) call \<Rightarrow> bool" where
  "is_observer (OnUpload s) = True"
| "is_observer (OnError s e) = True"
| "is_observer (MirrorCall s d sg r) = False"
| "is_observer (UploadCall s r) = False"

text \<open>
  From the calls of a run: the failures the observer was told, the uploads that threw,
  the servers that got a descriptor (or the falsy value an upload returned), the servers
  whose turn came to an end, the mirror attempts with their source and signal, and the
  first descriptor an upload returned.
\<close>

fun report_of :: "('s, 'd) call \<Rightarrow> ('s \<times> exn) list" where
  "report_of (OnError s e) = [(s, e)]"
| "report_of (OnUpload s) = []"
| "report_of (MirrorCall s d sg r) = []"
| "report_of (UploadCall s r) = []"

definition reported :: "('s, 'd) call list \<Rightarrow> ('s \<times> exn) list" where
  "reported cs = concat (map report_of cs)"

fun failure_of :: "('s, 'd) call \<Rightarrow> ('s \<times> exn) list" where
  "failure_of (UploadCall s (Inl e)) = [(s, e)]"
| "failure_of (UploadCall s (Inr m)) = []"
| "failure_of (MirrorCall s d sg r) = []"
| "failure_of (OnUpload s) = []"
| "failure_of (OnError s e) = []"

definition failures :: "('s, 'd) call list \<Rightarrow> ('s \<times> exn) list" where
  "failures cs = concat (map failure_of cs)"

fun success_of :: "('s, 'd) call \<Rightarrow> ('s \<times> 'd option) list" where
  "success_of (UploadCall s (Inr m)) = [(s, m)]"
| "success_of (UploadCall s (Inl e)) = []"
| "success_of (MirrorCall s d sg (Inr (Some m))) = [(s, Some m)]"
| "success_of (MirrorCall s d sg (Inr None)) = []"
| "success_of (MirrorCall s d sg (Inl e)) = []"
| "success_of (OnUpload s) = []"
| "success_of (OnError s e) = []"

definition successes :: "('s, 'd) call list \<Rightarrow> ('s \<times> 'd option) list" where
  "successes cs = concat (map success_of cs)"

fun turn_of :: "('s, 'd) call \<Rightarrow> 's list" where
  "turn_of (UploadCall s r) = [s]"
| "turn_of (MirrorCall s d sg (Inr (Some m))) = [s]"
| "turn_of (MirrorCall s d sg (Inr None)) = []"
| "turn_of (MirrorCall s d sg (Inl e)) = []"
| "turn_of (OnUpload s) = []"
| "turn_of (OnError s e) = []"

definition attempted :: "('s, 'd) call list \<Rightarrow> 's list" where
  "attempted cs = concat (map turn_of cs)"

fun mirror_of :: "('s, 'd) call \<Rightarrow> ('s \<times> 'd \<times> AbortSignal option) list" where
  "mirror_of (MirrorCall s d sg r) = [(s, d, sg)]"
| "mirror_of (UploadCall s r) = []"
| "mirror_of (OnUpload s) = []"
| "mirror_of (OnError s e) = []"

definition mirrored :: "('s, 'd) call list \<Rightarrow> ('s \<times> 'd \<times> AbortSignal option) list" where
  "mirrored cs = concat (map mirror_of cs)"

fun stored_of :: "('s, 'd) call \<Rightarrow> 'd list" where
  "stored_of (UploadCall s (Inr (Some m))) = [m]"
| "stored_of (UploadCall s (Inr None)) = []"
| "stored_of (UploadCall s (Inl e)) = []"
| "stored_of (MirrorCall s d sg r) = []"
| "stored_of (OnUpload s) = []"
| "stored_of (OnError s e) = []"

definition first_stored :: "('s, 'd) call list \<Rightarrow> 'd option" where
  "first_stored cs = (case concat (map stored_of cs) of [] \<Rightarrow> None | d # ds \<Rightarrow> Some d)"

text \<open>
  The order the calls of a run must have, read from the left with the first descriptor
  an upload has returned so far: while there is none, no mirror is attempted and an
  upload may set it; once there is one, an upload is only allowed right after a mirror
  attempt from that descriptor, to the same server, that threw or returned nothing, and
  such an attempt is always followed by that upload; every mirror attempt copies from
  that descriptor.
\<close>

fun follows :: "'d option \<Rightarrow> ('s, 'd) call list \<Rightarrow> bool" where
  "follows cur [] = True"
| "follows cur (OnUpload s # cs) = follows cur cs"
| "follows cur (OnError s e # cs) = follows cur cs"
| "follows None (UploadCall s u # cs) = follows (stored_by u) cs"
| "follows None (MirrorCall s d sg m # cs) = False"
| "follows (Some d) (UploadCall s u # cs) = False"
| "follows (Some d) (MirrorCall s d' sg (Inr (Some m)) # cs) = (d' = d \<and> follows (Some d) cs)"
| "follows (Some d) (MirrorCall s d' sg m # UploadCall s' u # cs) =
     (d' = d \<and> s' = s \<and> follows (Some d) cs)"
| "follows (Some d) (MirrorCall s d' sg m # cs) = False"

text \<open>Observers that do not throw.\<close>

definition quiet ::
  "('ev, 'onp, 'ona, 's \<Rightarrow> 'b \<Rightarrow> (unit, 'w) promise, 's \<Rightarrow> 'b \<Rightarrow> exn \<Rightarrow> (unit, 'w) promise)
     MultiServerUploadOptions \<Rightarrow> 'b \<Rightarrow> bool" where
  "quiet opts blob \<longleftrightarrow>
     (\<forall>tell s w. onUpload opts = Some tell \<longrightarrow> fst (tell s blob w) = Inr ()) \<and>
     (\<forall>tell s e w. onError opts = Some tell \<longrightarrow> fst (tell s blob e w) = Inr ())"

section \<open>A small world to run the actions in\<close>

definition ex_helpers :: "(string, string, string, string, string) helpers" where
  "ex_helpers =
     \<lparr>getBlobSha256 = (\<lambda>b. ''sha256 of '' @ b), getBlobSize = length,
      getBlobType = (\<lambda>b. None),
      getPaymentRequestFromHeaders =
        (\<lambda>hs. case map_of hs ''X-Cashu'' of None \<Rightarrow> [] | Some v \<Rightarrow> v),
      encodeAuthorizationHeader = (\<lambda>ev. ''Nostr '' @ ev),
      getEncodedToken = (\<lambda>t. ''cashuA '' @ t),
      doseAuthMatchUpload = (\<lambda>ev s b. ev = ''any server'' \<or> ev = ''only '' @ s)\<rparr>"

type_synonym ex_history = "(string, string, string, string, string, string) history"

definition challenge :: "nat \<Rightarrow> string response" where
  "challenge n = \<lparr>status = n, res_headers = [(''X-Cashu'', ''1 sat'')], res_json = Inr None\<rparr>"

definition stored :: "string \<Rightarrow> string response" where
  "stored s = \<lparr>status = 200, res_headers = [], res_json = Inr (Some (''blob at '' @ s))\<rparr>"

text \<open>
  Servers that answer the HEAD check with a status of their own and accept every
  PUT.
\<close>

definition answering ::
  "(string \<Rightarrow> nat) \<Rightarrow> ex_history \<Rightarrow> (string, string) request \<Rightarrow> exn + string response" where
  "answering f w init =
     (case rq_url init of
        URL p s \<Rightarrow> if rq_method init = ''HEAD'' then Inr (challenge (f s)) else Inr (stored s))"

definition ex_signer :: "ex_history \<Rightarrow> string \<Rightarrow> string \<Rightarrow> exn + string" where
  "ex_signer w s b = Inr (''only '' @ s)"

definition ex_payer :: "ex_history \<Rightarrow> string \<Rightarrow> string \<Rightarrow> string \<Rightarrow> exn + string" where
  "ex_payer w s b request = Inr (''token for '' @ s)"

definition ex_request ::
  "string \<Rightarrow> string \<Rightarrow> headers \<Rightarrow> string option \<Rightarrow> (string, string) request" where
  "ex_request s m hs b =
     \<lparr>rq_url = URL ''/upload'' s, rq_method = m, rq_signal = None, rq_headers = hs, rq_body = b\<rparr>"

definition ex_options :: "(string, string, string, string, string, ex_history) MultiOptions" where
  "ex_options =
     \<lparr>signal = None, auth = None, onPayment = Some (onPayment_of ex_payer),
      onAuth = Some (onAuth_of ex_signer),
      onUpload = Some (\<lambda>s b. resolve ()), onError = Some (\<lambda>s b e. resolve ())\<rparr>"

definition ex_mirror :: "(string, string, string, string, string, ex_history) mirrorBlob" where
  "ex_mirror s d opts =
     (if signal opts = Some 7 then reject (Error ''AbortError'')
      else if s = ''C'' then reject (HTTPError 404)
      else resolve (Some (d @ '' copied to '' @ s)))"

definition cancelled ::
  "(string \<Rightarrow> nat) \<Rightarrow> ex_history \<Rightarrow> (string, string) request \<Rightarrow> exn + string response" where
  "cancelled f w init =
     (if rq_signal init = Some 7 then Inl (Error ''AbortError'') else answering f w init)"

definition flaky :: "ex_history \<Rightarrow> (string, string) request \<Rightarrow> exn + string response" where
  "flaky w init = answering (\<lambda>s. if w = [] then 500 else 200) w init"

text \<open>
  What a run shows: the mapping at A, B and C, the first upload and the calls; and the
  history of its dealings with the outside.
\<close>

definition outcome_of ::
  "(exn + (string \<rightharpoonup> string option)) \<times> (string, string, string, ex_history) run \<Rightarrow>
   (exn + string option option list) \<times> string option \<times> (string, string) call list" where
  "outcome_of x =
     (case x of (res, r) \<Rightarrow>
        (map_sum id (\<lambda>m. map m [''A'', ''B'', ''C'']) res, initialUpload r, calls r))"

definition history_of ::
  "(exn + (string \<rightharpoonup> string option)) \<times> (string, string, string, ex_history) run \<Rightarrow> ex_history" where
  "history_of x = world (mem (snd x))"

section \<open>Properties\<close>

lemmas promise_defs = await_def resolve_def reject_def

lemmas world_defs = fetch_of_def onAuth_of_def onAuth2_of_def onPayment_of_def onPayment2_of_def

lemmas action_defs = fetchWithHandlers_def handleErrorResponse_def auth_or_onAuth_def json_def

lemmas ex_defs = ex_helpers_def challenge_def stored_def answering_def ex_signer_def ex_payer_def

lemmas obs_defs = commits_def after_first_request_def header_names_def

lemmas run_simps = Let_def promise_defs world_defs action_defs obs_defs

lemma uploadBlob_unfold:
  "uploadBlob h fetch server blob opts =
     await
       (fetchWithHandlers fetch
          \<lparr>rq_url = URL ''/upload'' server, rq_method = ''HEAD'', rq_signal = signal opts,
           rq_headers = checkHeaders h blob, rq_body = None\<rparr>
          [402 \<mapsto> (\<lambda>res.
              case onPayment opts of
                None \<Rightarrow> reject (Error ''Missing payment handler'')
              | Some pay \<Rightarrow>
                  await (pay server blob (getPaymentRequestFromHeaders h (res_headers res)))
                    (\<lambda>token.
                      fetch \<lparr>rq_url = URL ''/upload'' server, rq_method = ''PUT'',
                             rq_signal = signal opts,
                             rq_headers = [(''X-Cashu'', getEncodedToken h token)],
                             rq_body = Some blob\<rparr>)),
           403 \<mapsto> (\<lambda>res.
              await (auth_or_onAuth (auth opts)
                       (map_option (\<lambda>ask. ask server blob) (onAuth opts))) (\<lambda>a.
                case a of
                  None \<Rightarrow> reject (Error ''Missing auth handler'')
                | Some ev \<Rightarrow>
                    fetch \<lparr>rq_url = URL ''/upload'' server, rq_method = ''PUT'',
                           rq_signal = signal opts,
                           rq_headers = [(''Authorization'', encodeAuthorizationHeader h ev)],
                           rq_body = Some blob\<rparr>))])
       (\<lambda>check. await (handleErrorResponse check) (\<lambda>_.
          await (fetch \<lparr>rq_url = URL ''/upload'' server, rq_method = ''PUT'',
                         rq_signal = signal opts, rq_headers = [], rq_body = Some blob\<rparr>)
            (\<lambda>upload. await (handleErrorResponse upload) (\<lambda>_. json upload))))"
  unfolding uploadBlob_def checkHeaders_def Let_def by (rule refl)


lemma uploadBlob_2_unfold:
  "uploadBlob_2 h fetch server blob opts =
     await (auth_or_onAuth (auth opts)
              (map_option (\<lambda>ask. ask server (getBlobSha256 h blob) blob) (onAuth opts)))
       (uploadBlob_2_with h fetch server blob opts)"
  unfolding uploadBlob_2_def uploadBlob_2_with_def checkRequest_2_def checkHeaders_2_def
    headers_2_def Let_def by (rule refl)



lemma find_first_match:
  "(\<forall>x \<in> set pre. \<not> P x) \<Longrightarrow> P a \<Longrightarrow> find P (pre @ a # post) = Some a"
  by (induction pre) auto

subsection \<open>The credential cache\<close>

text \<open>
  Claim C5.  A credential request for a server returns the first cached credential,
  in the order of acquisition, that \<^verbatim>\<open>doseAuthMatchUpload\<close> accepts for the server, and
  leaves the cache and the world as they were (the acquisition callback is not
  called).  When no cached credential matches and a callback is configured, the
  callback is called, and what it resolves to is appended to the cache and returned.
  When no cached credential matches and no callback is configured, the request fails
  with the missing handler error.
\<close>

theorem handleAuthRequest_cache:
  "(\<forall>pre a post.
      authEvents c = pre @ a # post \<and>
      (\<forall>x \<in> set pre. \<not> doseAuthMatchUpload h x server blob) \<and>
      doseAuthMatchUpload h a server blob \<longrightarrow>
      handleAuthRequest h blob opts server c = (Inr a, c)) \<and>
   (\<forall>ask a w'.
      (\<forall>x \<in> set (authEvents c). \<not> doseAuthMatchUpload h x server blob) \<and>
      onAuth opts = Some ask \<and> ask server blob (world c) = (Inr a, w') \<longrightarrow>
      handleAuthRequest h blob opts server c =
        (Inr a, c\<lparr>authEvents := authEvents c @ [a], world := w'\<rparr>)) \<and>
   ((\<forall>x \<in> set (authEvents c). \<not> doseAuthMatchUpload h x server blob) \<and> onAuth opts = None \<longrightarrow>
      handleAuthRequest h blob opts server c = (Inl (Error ''Missing onAuth handler''), c))"
proof (intro conjI allI impI)
  fix pre a post
  assume "authEvents c = pre @ a # post \<and>
      (\<forall>x \<in> set pre. \<not> doseAuthMatchUpload h x server blob) \<and>
      doseAuthMatchUpload h a server blob"
  then have "find (\<lambda>a. doseAuthMatchUpload h a server blob) (authEvents c) = Some a"
    by (simp add: find_first_match)
  then show "handleAuthRequest h blob opts server c = (Inr a, c)"
    by (simp add: handleAuthRequest_def resolve_def)
next
  fix ask a w'
  assume a: "(\<forall>x \<in> set (authEvents c). \<not> doseAuthMatchUpload h x server blob) \<and>
      onAuth opts = Some ask \<and> ask server blob (world c) = (Inr a, w')"
  then have "find (\<lambda>a. doseAuthMatchUpload h a server blob) (authEvents c) = None"
    by (simp add: find_None_iff)
  with a show "handleAuthRequest h blob opts server c =
      (Inr a, c\<lparr>authEvents := authEvents c @ [a], world := w'\<rparr>)"
    by (simp add: handleAuthRequest_def resolve_def await_def outside_def)
next
  assume a: "(\<forall>x \<in> set (authEvents c). \<not> doseAuthMatchUpload h x server blob) \<and>
      onAuth opts = None"
  then have "find (\<lambda>a. doseAuthMatchUpload h a server blob) (authEvents c) = None"
    by (simp add: find_None_iff)
  with a show "handleAuthRequest h blob opts server c =
      (Inl (Error ''Missing onAuth handler''), c)"
    by (simp add: handleAuthRequest_def reject_def)
qed

text \<open>
  The three cases in the small world, for a request of server B: a cache holding a
  credential of A only and one good anywhere; a cache holding the credential of A only,
  with a callback; the same cache without a callback.
\<close>

theorem handleAuthRequest_cache_witness:
  "handleAuthRequest ex_helpers ''blob''
      \<lparr>signal = None, auth = None, onPayment = None :: unit option,
       onAuth = Some (onAuth_of ex_signer)\<rparr> ''B''
      \<lparr>authEvents = [''only A'', ''any server'', ''only B''], world = []\<rparr> =
     (Inr ''any server'',
      \<lparr>authEvents = [''only A'', ''any server'', ''only B''], world = []\<rparr>) \<and>
   handleAuthRequest ex_helpers ''blob''
      \<lparr>signal = None, auth = None, onPayment = None :: unit option,
       onAuth = Some (onAuth_of ex_signer)\<rparr> ''B''
      \<lparr>authEvents = [''only A''], world = []\<rparr> =
     (Inr ''only B'',
      \<lparr>authEvents = [''only A'', ''only B''],
       world = [AskedAuth ''B'' ''blob'' (Inr ''only B'')]\<rparr>) \<and>
   handleAuthRequest ex_helpers ''blob''
      \<lparr>signal = None, auth = None, onPayment = None :: unit option,
       onAuth = None :: (string \<Rightarrow> string \<Rightarrow> (string, ex_history) promise) option\<rparr> ''B''
      \<lparr>authEvents = [''only A''], world = []\<rparr> =
     (Inl (Error ''Missing onAuth handler''), \<lparr>authEvents = [''only A''], world = []\<rparr>)"
proof (intro conjI)
  show "handleAuthRequest ex_helpers ''blob''
      \<lparr>signal = None, auth = None, onPayment = None :: unit option,
       onAuth = Some (onAuth_of ex_signer)\<rparr> ''B''
      \<lparr>authEvents = [''only A'', ''any server'', ''only B''], world = []\<rparr> =
     (Inr ''any server'',
      \<lparr>authEvents = [''only A'', ''any server'', ''only B''], world = []\<rparr>)"
    using handleAuthRequest_cache
      [of "\<lparr>authEvents = [''only A'', ''any server'', ''only B''], world = []\<rparr>"
          ex_helpers "''B''" "''blob''"
          "\<lparr>signal = None, auth = None, onPayment = None :: unit option,
            onAuth = Some (onAuth_of ex_signer)\<rparr>",
       THEN conjunct1, rule_format, of "[''only A'']" "''any server''" "[''only B'']"]
    by (simp add: ex_helpers_def)
  show "handleAuthRequest ex_helpers ''blob''
      \<lparr>signal = None, auth = None, onPayment = None :: unit option,
       onAuth = Some (onAuth_of ex_signer)\<rparr> ''B''
      \<lparr>authEvents = [''only A''], world = []\<rparr> =
     (Inr ''only B'',
      \<lparr>authEvents = [''only A'', ''only B''],
       world = [AskedAuth ''B'' ''blob'' (Inr ''only B'')]\<rparr>)"
    using handleAuthRequest_cache
      [of "\<lparr>authEvents = [''only A''], world = []\<rparr>"
          ex_helpers "''B''" "''blob''"
          "\<lparr>signal = None, auth = None, onPayment = None :: unit option,
            onAuth = Some (onAuth_of ex_signer)\<rparr>",
       THEN conjunct2, THEN conjunct1, rule_format,
       of "onAuth_of ex_signer" "''only B''" "[AskedAuth ''B'' ''blob'' (Inr ''only B'')]"]
    by (simp add: ex_helpers_def ex_signer_def onAuth_of_def)
  show "handleAuthRequest ex_helpers ''blob''
      \<lparr>signal = None, auth = None, onPayment = None :: unit option,
       onAuth = None :: (string \<Rightarrow> string \<Rightarrow> (string, ex_history) promise) option\<rparr> ''B''
      \<lparr>authEvents = [''only A''], world = []\<rparr> =
     (Inl (Error ''Missing onAuth handler''), \<lparr>authEvents = [''only A''], world = []\<rparr>)"
    using handleAuthRequest_cache
      [of "\<lparr>authEvents = [''only A''], world = []\<rparr>"
          ex_helpers "''B''" "''blob''"
          "\<lparr>signal = None, auth = None, onPayment = None :: unit option,
            onAuth = None :: (string \<Rightarrow> string \<Rightarrow> (string, ex_history) promise) option\<rparr>",
       THEN conjunct2, THEN conjunct2]
    by (simp add: ex_helpers_def)
qed

lemmas ex_run = uploadBlob_def uploadBlob_2_def Let_def promise_defs world_defs action_defs
  ex_defs ex_request_def digit_def String_nat.simps

lemma ex_helpers_sel:
  "getBlobSha256 ex_helpers b = ''sha256 of '' @ b"
  "getBlobSize ex_helpers b = length b"
  "getBlobType ex_helpers b = None"
  "encodeAuthorizationHeader ex_helpers ev = ''Nostr '' @ ev"
  "getEncodedToken ex_helpers t = ''cashuA '' @ t"
  by (simp_all add: ex_helpers_def)

lemmas ex_obs = obs_defs ex_request_def challenge_def stored_def ex_helpers_sel ex_signer_def
  ex_payer_def

subsection \<open>The two revisions in the small world\<close>



lemma ex_upload_403:
  "uploadBlob ex_helpers (fetch_of (answering (\<lambda>s. 403))) ''A'' ''blob''
      \<lparr>signal = None, auth = None, onPayment = Some (onPayment_of ex_payer),
       onAuth = Some (onAuth_of ex_signer)\<rparr> [] =
   (Inr (Some ''blob at A''),
    [Fetched (ex_request ''A'' ''HEAD''
        [(''X-SHA-256'', ''sha256 of blob''), (''X-Content-Length'', ''4'')] None)
       (Inr (challenge 403)),
     AskedAuth ''A'' ''blob'' (Inr ''only A''),
     Fetched (ex_request ''A'' ''PUT''
        [(''Authorization'', ''Nostr only A'')] (Some ''blob''))
       (Inr (stored ''A'')),
     Fetched (ex_request ''A'' ''PUT''
        [] (Some ''blob''))
       (Inr (stored ''A''))])"
  by (simp add: ex_run)

lemma ex_upload_2_403:
  "uploadBlob_2 ex_helpers (fetch_of (answering (\<lambda>s. 403))) ''A'' ''blob''
      \<lparr>signal = None, auth = None, onPayment = Some (onPayment2_of ex_payer),
       onAuth = Some (onAuth2_of ex_signer)\<rparr> [] =
   (Inl (Error ''Unauthorized''),
    [AskedAuth ''A'' ''blob'' (Inr ''only A''),
     Fetched (ex_request ''A'' ''HEAD''
        [(''X-SHA-256'', ''sha256 of blob''), (''Authorization'', ''Nostr only A''),
         (''X-Content-Length'', ''4'')] None)
       (Inr (challenge 403))])"
  by (simp add: ex_run)



lemma ex_upload_2_200:
  "uploadBlob_2 ex_helpers (fetch_of (answering (\<lambda>s. 200))) ''A'' ''blob''
      \<lparr>signal = None, auth = None, onPayment = Some (onPayment2_of ex_payer),
       onAuth = Some (onAuth2_of ex_signer)\<rparr> [] =
   (Inr (Some ''blob at A''),
    [AskedAuth ''A'' ''blob'' (Inr ''only A''),
     Fetched (ex_request ''A'' ''HEAD''
        [(''X-SHA-256'', ''sha256 of blob''), (''Authorization'', ''Nostr only A''),
         (''X-Content-Length'', ''4'')] None)
       (Inr (challenge 200)),
     Fetched (ex_request ''A'' ''PUT''
        [(''X-SHA-256'', ''sha256 of blob''), (''Authorization'', ''Nostr only A'')] (Some ''blob''))
       (Inr (stored ''A''))])"
  by (simp add: ex_run)



subsection \<open>A check answered with 401\<close>





subsection \<open>A check answered with 403\<close>

text \<open>
  Claim C2, as amended.  The claim has a 403 end the upload with no resolver called
  and no further request.  For every server that answers the check with 403: the
  second revision fails with \<^verbatim>\<open>Unauthorized\<close>, sends no further request, never asks
  for a payment and asks for no credential after the answer (it has asked before the
  check, when it was given a callback and no credential).  The first revision treats
  403 as the authentication challenge: it asks for at most one credential, and with a
  credential (the one it was given, or the one the callback resolved to) its next
  request is a PUT carrying the \<^verbatim>\<open>Authorization\<close> header alone; with neither a
  credential nor a callback it fails with \<^verbatim>\<open>Missing auth handler\<close>.
\<close>

theorem preflight_403:
  assumes head: "\<And>w init. rq_method init = ''HEAD'' \<Longrightarrow> net w init = Inr res"
      and st: "status res = 403"
  shows "(case uploadBlob_2 h (fetch_of net) server blob
            \<lparr>signal = sg, auth = a, onPayment = map_option onPayment2_of payer,
             onAuth = map_option onAuth2_of signer\<rparr> w0 of
          (r, w) \<Rightarrow>
            let new = drop (length w0) w
            in take (length w0) w = w0 \<and> length (requests new) \<le> 1 \<and> payments new = [] \<and>
               filter is_AskedAuth (after_first_request new) = [] \<and>
               r = (case a of
                      Some ev \<Rightarrow> Inl (Error ''Unauthorized'')
                    | None \<Rightarrow>
                       (case signer of
                          None \<Rightarrow> Inl (Error ''Unauthorized'')
                        | Some sign \<Rightarrow>
                           (case sign w0 server blob of
                              Inl e \<Rightarrow> Inl e
                            | Inr ev \<Rightarrow> Inl (Error ''Unauthorized''))))) \<and>
         (case uploadBlob h (fetch_of net) server blob
            \<lparr>signal = sg, auth = a, onPayment = map_option onPayment_of payer,
             onAuth = map_option onAuth_of signer\<rparr> w0 of
          (r, w) \<Rightarrow>
            let new = drop (length w0) w
            in take (length w0) w = w0 \<and> payments new = [] \<and>
               length (filter is_AskedAuth new) \<le> 1 \<and>
               map rq_headers (take 1 (commits new)) =
                 map (\<lambda>ev. [(''Authorization'', encodeAuthorizationHeader h ev)])
                   (case a of Some ev \<Rightarrow> [ev] | None \<Rightarrow> credentials new) \<and>
               (a = None \<and> signer = None \<longrightarrow> r = Inl (Error ''Missing auth handler'')))"
proof (intro conjI)
  show "case uploadBlob_2 h (fetch_of net) server blob
            \<lparr>signal = sg, auth = a, onPayment = map_option onPayment2_of payer,
             onAuth = map_option onAuth2_of signer\<rparr> w0 of
          (r, w) \<Rightarrow>
            let new = drop (length w0) w
            in take (length w0) w = w0 \<and> length (requests new) \<le> 1 \<and> payments new = [] \<and>
               filter is_AskedAuth (after_first_request new) = [] \<and>
               r = (case a of
                      Some ev \<Rightarrow> Inl (Error ''Unauthorized'')
                    | None \<Rightarrow>
                       (case signer of
                          None \<Rightarrow> Inl (Error ''Unauthorized'')
                        | Some sign \<Rightarrow>
                           (case sign w0 server blob of
                              Inl e \<Rightarrow> Inl e
                            | Inr ev \<Rightarrow> Inl (Error ''Unauthorized''))))"
    using st by (cases a; cases signer)
      (simp_all add: uploadBlob_2_unfold uploadBlob_2_with_def checkRequest_2_def run_simps head
            split: sum.split)
  show "case uploadBlob h (fetch_of net) server blob
            \<lparr>signal = sg, auth = a, onPayment = map_option onPayment_of payer,
             onAuth = map_option onAuth_of signer\<rparr> w0 of
          (r, w) \<Rightarrow>
            let new = drop (length w0) w
            in take (length w0) w = w0 \<and> payments new = [] \<and>
               length (filter is_AskedAuth new) \<le> 1 \<and>
               map rq_headers (take 1 (commits new)) =
                 map (\<lambda>ev. [(''Authorization'', encodeAuthorizationHeader h ev)])
                   (case a of Some ev \<Rightarrow> [ev] | None \<Rightarrow> credentials new) \<and>
               (a = None \<and> signer = None \<longrightarrow> r = Inl (Error ''Missing auth handler''))"
    using st by (cases a; cases signer)
      (simp_all add: uploadBlob_unfold run_simps head split: sum.split)
qed



text \<open>
  The claim fails on a server that answers the check with 403: the second revision has
  called the credential callback, and the first revision calls it and retries.
\<close>

theorem preflight_403_counterexample:
  "uploadBlob_2 ex_helpers (fetch_of (answering (\<lambda>s. 403))) ''A'' ''blob''
      \<lparr>signal = None, auth = None, onPayment = Some (onPayment2_of ex_payer),
       onAuth = Some (onAuth2_of ex_signer)\<rparr> [] =
   (Inl (Error ''Unauthorized''),
    [AskedAuth ''A'' ''blob'' (Inr ''only A''),
     Fetched (ex_request ''A'' ''HEAD''
        [(''X-SHA-256'', ''sha256 of blob''), (''Authorization'', ''Nostr only A''),
         (''X-Content-Length'', ''4'')] None)
       (Inr (challenge 403))]) \<and>
   uploadBlob ex_helpers (fetch_of (answering (\<lambda>s. 403))) ''A'' ''blob''
      \<lparr>signal = None, auth = None, onPayment = Some (onPayment_of ex_payer),
       onAuth = Some (onAuth_of ex_signer)\<rparr> [] =
   (Inr (Some ''blob at A''),
    [Fetched (ex_request ''A'' ''HEAD''
        [(''X-SHA-256'', ''sha256 of blob''), (''X-Content-Length'', ''4'')] None)
       (Inr (challenge 403)),
     AskedAuth ''A'' ''blob'' (Inr ''only A''),
     Fetched (ex_request ''A'' ''PUT''
        [(''Authorization'', ''Nostr only A'')] (Some ''blob''))
       (Inr (stored ''A'')),
     Fetched (ex_request ''A'' ''PUT''
        [] (Some ''blob''))
       (Inr (stored ''A''))])"
  by (simp add: ex_upload_403 ex_upload_2_403)

theorem preflight_403_witness:
  "status (challenge 403) = 403 \<and>
   fst (uploadBlob_2 ex_helpers (fetch_of (answering (\<lambda>s. 403))) ''A'' ''blob''
      \<lparr>signal = None, auth = None, onPayment = Some (onPayment2_of ex_payer),
       onAuth = Some (onAuth2_of ex_signer)\<rparr> []) = Inl (Error ''Unauthorized'') \<and>
   map rq_headers (take 1 (commits (snd (uploadBlob ex_helpers (fetch_of (answering (\<lambda>s. 403))) ''A'' ''blob''
      \<lparr>signal = None, auth = None, onPayment = Some (onPayment_of ex_payer),
       onAuth = Some (onAuth_of ex_signer)\<rparr> [])))) =
     [[(''Authorization'', ''Nostr only A'')]]"
proof -
  have head: "rq_method init = ''HEAD'' \<Longrightarrow>
      answering (\<lambda>s. 403) w init = Inr (challenge 403)" for w init
    by (simp add: answering_def split: URL.splits)
  have st: "status (challenge 403) = 403"
    by (simp add: challenge_def)
  show ?thesis
    using preflight_403 [where net = "answering (\<lambda>s. 403)" and res = "challenge 403"
        and h = ex_helpers and server = "''A''" and blob = "''blob''" and sg = None
        and a = None and payer = "Some ex_payer" and signer = "Some ex_signer"
        and ?w0.0 = "[]", OF head st]
    by (simp add: st ex_upload_403 ex_upload_2_403 ex_obs)
qed

subsection \<open>When the credential is asked for\<close>

lemma uploadBlob_2_with_shape:
  "\<exists>x evs.
     snd (uploadBlob_2_with h (fetch_of net) server blob
            \<lparr>signal = sg, auth = a, onPayment = map_option onPayment2_of payer,
             onAuth = map_option onAuth2_of signer\<rparr> cred w1) =
       w1 @ Fetched (checkRequest_2 h server blob sg cred) x # evs \<and>
     filter is_AskedAuth evs = [] \<and>
     (\<forall>init \<in> set (commits evs).
        header_names init \<in>
          {map fst (headers_2 h blob cred), map fst (headers_2 h blob cred) @ [''X-Cashu'']} \<and>
        map_of (rq_headers init) ''X-SHA-256'' = Some (getBlobSha256 h blob))"
proof (cases "net w1 (checkRequest_2 h server blob sg cred)")
  case (Inl e)
  then show ?thesis
    by (simp add: uploadBlob_2_with_def run_simps)
next
  case (Inr res)
  have sha: "map_of (headers_2 h blob cred) ''X-SHA-256'' = Some (getBlobSha256 h blob)"
    by (simp add: headers_2_def split: option.split)
  have cashu: "set_prop ''X-Cashu'' k (headers_2 h blob cred) = headers_2 h blob cred @ [(''X-Cashu'', k)]" for k
    by (simp add: headers_2_def split: option.split)
  consider "status res = 401" | "status res = 402" | "status res = 403"
    | "status res \<noteq> 401" "status res \<noteq> 402" "status res \<noteq> 403"
    by blast
  then show ?thesis
  proof cases
    case 1
    with Inr show ?thesis
      by (cases cred) (simp_all add: uploadBlob_2_with_def run_simps)
  next
    case 2
    with Inr show ?thesis
      by (cases payer)
         (auto simp: uploadBlob_2_with_def run_simps sha cashu split: sum.split)
  next
    case 3
    with Inr show ?thesis
      by (simp add: uploadBlob_2_with_def run_simps)
  next
    case 4
    with Inr show ?thesis
      by (auto simp: uploadBlob_2_with_def run_simps sha split: sum.split)
  qed
qed


lemma uploadBlob_2_credential:
  "uploadBlob_2 h fetch server blob opts w0 =
   (case auth opts of
      Some ev \<Rightarrow> uploadBlob_2_with h fetch server blob opts (Some ev) w0
    | None \<Rightarrow>
       (case onAuth opts of
          None \<Rightarrow> uploadBlob_2_with h fetch server blob opts None w0
        | Some ask \<Rightarrow>
           (case ask server (getBlobSha256 h blob) blob w0 of
              (Inl e, w1) \<Rightarrow> (Inl e, w1)
            | (Inr ev, w1) \<Rightarrow> uploadBlob_2_with h fetch server blob opts (Some ev) w1)))"
  by (simp add: uploadBlob_2_unfold promise_defs auth_or_onAuth_def
           split: option.split sum.split prod.split)

lemma credentials_none: "filter is_AskedAuth evs = [] \<Longrightarrow> credentials evs = []"
  by (induction evs rule: credentials.induct) (auto split: if_splits)

lemma authorization_in_check:
  "map_of (rq_headers (checkRequest_2 h server blob sg (Some ev))) ''Authorization'' =
     Some (encodeAuthorizationHeader h ev)"
  by (simp add: checkRequest_2_def checkHeaders_2_def headers_2_def Let_def)

lemma method_of_check: "rq_method (checkRequest_2 h server blob sg cred) = ''HEAD''"
  by (simp add: checkRequest_2_def)

lemma uploadBlob_asks_after_403:
  "case uploadBlob h (fetch_of net) server blob
            \<lparr>signal = sg, auth = a, onPayment = map_option onPayment_of payer,
             onAuth = map_option onAuth_of signer\<rparr> w0 of
          (r, w) \<Rightarrow>
            let new = drop (length w0) w
            in take (length w0) w = w0 \<and> length (filter is_AskedAuth new) \<le> 1 \<and>
               (filter is_AskedAuth new \<noteq> [] \<longrightarrow>
                  a = None \<and> map answered (take 1 new) = [Some (''HEAD'', 403)])"
proof (cases "net w0 \<lparr>rq_url = URL ''/upload'' server, rq_method = ''HEAD'', rq_signal = sg,
           rq_headers = checkHeaders h blob, rq_body = None\<rparr>")
  case (Inl e)
  then show ?thesis
    by (simp add: uploadBlob_unfold run_simps)
next
  case (Inr res)
  consider "status res = 402" | "status res = 403" | "status res \<noteq> 402" "status res \<noteq> 403"
    by blast
  then show ?thesis
  proof cases
    case 1
    with Inr show ?thesis
      by (cases payer) (simp_all add: uploadBlob_unfold run_simps split: sum.split)
  next
    case 2
    with Inr show ?thesis
      by (cases a; cases signer) (simp_all add: uploadBlob_unfold run_simps split: sum.split)
  next
    case 3
    with Inr show ?thesis
      by (simp add: uploadBlob_unfold run_simps split: sum.split)
  qed
qed


lemma uploadBlob_2_asks_first:
  "case uploadBlob_2 h (fetch_of net) server blob
            \<lparr>signal = sg, auth = a, onPayment = map_option onPayment2_of payer,
             onAuth = map_option onAuth2_of signer\<rparr> w0 of
          (r, w) \<Rightarrow>
            let new = drop (length w0) w
            in take (length w0) w = w0 \<and>
               (\<forall>sign. a = None \<and> signer = Some sign \<longrightarrow>
                  take 1 new = [AskedAuth server blob (sign w0 server blob)]) \<and>
               filter is_AskedAuth (after_first_request new) = [] \<and>
               (\<forall>ev. a = Some ev \<or> (a = None \<and> credentials new = [ev]) \<longrightarrow>
                  map (\<lambda>init. (rq_method init, map_of (rq_headers init) ''Authorization''))
                    (take 1 (requests new)) =
                  [(''HEAD'', Some (encodeAuthorizationHeader h ev))])"
proof -
  let ?opts = "\<lparr>signal = sg, auth = a, onPayment = map_option onPayment2_of payer,
             onAuth = map_option onAuth2_of signer\<rparr>"
  have rest: "\<exists>x evs.
     snd (uploadBlob_2_with h (fetch_of net) server blob ?opts cred w1) =
       w1 @ Fetched (checkRequest_2 h server blob sg cred) x # evs \<and>
     filter is_AskedAuth evs = [] \<and> credentials evs = []" for cred w1
    using uploadBlob_2_with_shape [of h net server blob sg a payer signer cred w1]
    by (auto simp: credentials_none)
  show ?thesis
  proof (cases a)
    case (Some ev)
    from rest [of "Some ev" w0] obtain x evs where
      "snd (uploadBlob_2_with h (fetch_of net) server blob ?opts (Some ev) w0) =
         w0 @ Fetched (checkRequest_2 h server blob sg (Some ev)) x # evs"
      "filter is_AskedAuth evs = []" "credentials evs = []"
      by blast
    with Some show ?thesis
      by (simp add: uploadBlob_2_credential case_prod_beta Let_def after_first_request_def
            authorization_in_check method_of_check)
  next
    case None
    show ?thesis
    proof (cases signer)
      case no: None
      from rest [of None w0] obtain x evs where
        "snd (uploadBlob_2_with h (fetch_of net) server blob ?opts None w0) =
           w0 @ Fetched (checkRequest_2 h server blob sg None) x # evs"
        "filter is_AskedAuth evs = []" "credentials evs = []"
        by blast
      with None no show ?thesis
        by (simp add: uploadBlob_2_credential case_prod_beta Let_def after_first_request_def)
    next
      case (Some sign)
      show ?thesis
      proof (cases "sign w0 server blob")
        case (Inl e)
        with None Some show ?thesis
          by (simp add: uploadBlob_2_credential world_defs Let_def after_first_request_def)
      next
        case (Inr ev)
        from rest [of "Some ev" "w0 @ [AskedAuth server blob (Inr ev)]"] obtain x evs where
          "snd (uploadBlob_2_with h (fetch_of net) server blob ?opts (Some ev)
                 (w0 @ [AskedAuth server blob (Inr ev)])) =
             (w0 @ [AskedAuth server blob (Inr ev)]) @
               Fetched (checkRequest_2 h server blob sg (Some ev)) x # evs"
          "filter is_AskedAuth evs = []" "credentials evs = []"
          by blast
        with None Some Inr show ?thesis
          by (simp add: uploadBlob_2_credential world_defs case_prod_beta Let_def
                after_first_request_def authorization_in_check method_of_check)
      qed
    qed
  qed
qed


text \<open>
  Claim C8, as amended.  The claim has the credential asked for only after a 401.  In
  the first revision the credential callback is called at most once and only after the
  check was answered with 403 (never after a 401), and only when no credential was
  given.  The second revision is eager: given a callback and no credential, calling
  the callback is the first thing it does, before any request; it never calls it
  after a request; and the credential it has is attached to the check itself.
\<close>

theorem credential_resolution_order:
  "(case uploadBlob h (fetch_of net) server blob
            \<lparr>signal = sg, auth = a, onPayment = map_option onPayment_of payer,
             onAuth = map_option onAuth_of signer\<rparr> w0 of
          (r, w) \<Rightarrow>
            let new = drop (length w0) w
            in take (length w0) w = w0 \<and> length (filter is_AskedAuth new) \<le> 1 \<and>
               (filter is_AskedAuth new \<noteq> [] \<longrightarrow>
                  a = None \<and> map answered (take 1 new) = [Some (''HEAD'', 403)])) \<and>
   (case uploadBlob_2 h (fetch_of net) server blob
            \<lparr>signal = sg, auth = a, onPayment = map_option onPayment2_of payer,
             onAuth = map_option onAuth2_of signer\<rparr> w0 of
          (r, w) \<Rightarrow>
            let new = drop (length w0) w
            in take (length w0) w = w0 \<and>
               (\<forall>sign. a = None \<and> signer = Some sign \<longrightarrow>
                  take 1 new = [AskedAuth server blob (sign w0 server blob)]) \<and>
               filter is_AskedAuth (after_first_request new) = [] \<and>
               (\<forall>ev. a = Some ev \<or> (a = None \<and> credentials new = [ev]) \<longrightarrow>
                  map (\<lambda>init. (rq_method init, map_of (rq_headers init) ''Authorization''))
                    (take 1 (requests new)) =
                  [(''HEAD'', Some (encodeAuthorizationHeader h ev))]))"
  by (rule conjI [OF uploadBlob_asks_after_403 uploadBlob_2_asks_first])

text \<open>
  The claim fails on a server that accepts the check at once: the second revision has
  already called the credential callback and attached the credential, though no 401
  was ever received.  In the first revision it is a 403 that triggers the callback.
\<close>

theorem credential_resolution_counterexample:
  "uploadBlob_2 ex_helpers (fetch_of (answering (\<lambda>s. 200))) ''A'' ''blob''
      \<lparr>signal = None, auth = None, onPayment = Some (onPayment2_of ex_payer),
       onAuth = Some (onAuth2_of ex_signer)\<rparr> [] =
   (Inr (Some ''blob at A''),
    [AskedAuth ''A'' ''blob'' (Inr ''only A''),
     Fetched (ex_request ''A'' ''HEAD''
        [(''X-SHA-256'', ''sha256 of blob''), (''Authorization'', ''Nostr only A''),
         (''X-Content-Length'', ''4'')] None)
       (Inr (challenge 200)),
     Fetched (ex_request ''A'' ''PUT''
        [(''X-SHA-256'', ''sha256 of blob''), (''Authorization'', ''Nostr only A'')] (Some ''blob''))
       (Inr (stored ''A''))]) \<and>
   take 2 (snd (uploadBlob ex_helpers (fetch_of (answering (\<lambda>s. 403))) ''A'' ''blob''
      \<lparr>signal = None, auth = None, onPayment = Some (onPayment_of ex_payer),
       onAuth = Some (onAuth_of ex_signer)\<rparr> [])) =
    [Fetched (ex_request ''A'' ''HEAD''
        [(''X-SHA-256'', ''sha256 of blob''), (''X-Content-Length'', ''4'')] None)
       (Inr (challenge 403)),
     AskedAuth ''A'' ''blob'' (Inr ''only A'')]"
  by (simp add: ex_upload_2_200 ex_upload_403)

theorem credential_resolution_order_witness:
  "filter is_AskedAuth (snd (uploadBlob ex_helpers (fetch_of (answering (\<lambda>s. 403))) ''A'' ''blob''
      \<lparr>signal = None, auth = None, onPayment = Some (onPayment_of ex_payer),
       onAuth = Some (onAuth_of ex_signer)\<rparr> [])) =
     [AskedAuth ''A'' ''blob'' (Inr ''only A'')] \<and>
   map answered (take 1 (snd (uploadBlob ex_helpers (fetch_of (answering (\<lambda>s. 403))) ''A'' ''blob''
      \<lparr>signal = None, auth = None, onPayment = Some (onPayment_of ex_payer),
       onAuth = Some (onAuth_of ex_signer)\<rparr> []))) =
     [Some (''HEAD'', 403)] \<and>
   take 1 (snd (uploadBlob_2 ex_helpers (fetch_of (answering (\<lambda>s. 403))) ''A'' ''blob''
      \<lparr>signal = None, auth = None, onPayment = Some (onPayment2_of ex_payer),
       onAuth = Some (onAuth2_of ex_signer)\<rparr> [])) =
     [AskedAuth ''A'' ''blob'' (Inr ''only A'')]"
  using credential_resolution_order [where net = "answering (\<lambda>s. 403)"
        and h = "ex_helpers" and server = "''A''" and blob = "''blob''" and sg = None
        and a = None and payer = "Some ex_payer" and signer = "Some ex_signer"
        and ?w0.0 = "[]"]
  by (simp add: ex_upload_403 ex_upload_2_403 ex_obs)

subsection \<open>The headers of the commit\<close>












subsection \<open>One turn of the loop\<close>

lemma obs_append [simp]:
  "reported (xs @ ys) = reported xs @ reported ys"
  "failures (xs @ ys) = failures xs @ failures ys"
  "successes (xs @ ys) = successes xs @ successes ys"
  "attempted (xs @ ys) = attempted xs @ attempted ys"
  by (simp_all add: reported_def failures_def successes_def attempted_def)

lemma obs_Nil [simp]:
  "reported [] = []" "failures [] = []" "successes [] = []" "attempted [] = []"
  by (simp_all add: reported_def failures_def successes_def attempted_def)

lemma obs_Cons [simp]:
  "reported (c # cs) = report_of c @ reported cs"
  "failures (c # cs) = failure_of c @ failures cs"
  "successes (c # cs) = success_of c @ successes cs"
  "attempted (c # cs) = turn_of c @ attempted cs"
  by (simp_all add: reported_def failures_def successes_def attempted_def)

lemma observers_silent:
  "list_all is_observer obs \<Longrightarrow> failures obs = [] \<and> successes obs = [] \<and> attempted obs = []"
  by (induction obs) (auto elim: is_observer.elims)

lemma forServer_turn:
  "case forServer mirrorBlob h fetch blob opts s r0 of
     (res, r) \<Rightarrow>
       \<exists>obs. list_all is_observer obs \<and>
         (case initialUpload r0 of
            None \<Rightarrow>
              (\<exists>u. calls r = calls r0 @ UploadCall s u # obs \<and>
                   initialUpload r = stored_by u \<and>
                   results r = (case u of Inl e \<Rightarrow> results r0 | Inr m \<Rightarrow> (results r0)(s \<mapsto> m)))
          | Some d \<Rightarrow>
              initialUpload r = Some d \<and>
              ((\<exists>m. calls r = calls r0 @ MirrorCall s d (signal opts) (Inr (Some m)) # obs \<and>
                    results r = (results r0)(s \<mapsto> Some m)) \<or>
               (\<exists>mres u. \<not> is_descriptor mres \<and>
                    calls r = calls r0 @ MirrorCall s d (signal opts) mres # UploadCall s u # obs \<and>
                    results r = (case u of Inl e \<Rightarrow> results r0 | Inr m \<Rightarrow> (results r0)(s \<mapsto> m)))))"
proof (cases "initialUpload r0")
  case None
  obtain u c where up: "uploadBlob h (\<lambda>init. outside (fetch init)) s blob
         \<lparr>signal = None, auth = None,
          onPayment = Some (\<lambda>s b request. handlePaymentRequest blob opts s request),
          onAuth = Some (\<lambda>s b. handleAuthRequest h blob opts s)\<rparr> (mem r0) = (u, c)"
    by (cases "uploadBlob h (\<lambda>init. outside (fetch init)) s blob
         \<lparr>signal = None, auth = None,
          onPayment = Some (\<lambda>s b request. handlePaymentRequest blob opts s request),
          onAuth = Some (\<lambda>s b. handleAuthRequest h blob opts s)\<rparr> (mem r0)")
  show ?thesis
    using None up
    by (cases u)
       (auto simp: forServer_def tryServer_def attemptMirror_def saveResult_def inside_def
          resolve_def Let_def
        split: option.splits prod.splits sum.splits)
next
  case (Some d)
  obtain mres c1 where mi: "mirrorBlob s d
         \<lparr>signal = signal opts, auth = None,
          onPayment = Some (handlePaymentRequest blob opts),
          onAuth = Some (handleAuthRequest h blob opts)\<rparr> (mem r0) = (mres, c1)"
    by (cases "mirrorBlob s d
         \<lparr>signal = signal opts, auth = None,
          onPayment = Some (handlePaymentRequest blob opts),
          onAuth = Some (handleAuthRequest h blob opts)\<rparr> (mem r0)")
  obtain u c where up: "uploadBlob h (\<lambda>init. outside (fetch init)) s blob
         \<lparr>signal = None, auth = None,
          onPayment = Some (\<lambda>s b request. handlePaymentRequest blob opts s request),
          onAuth = Some (\<lambda>s b. handleAuthRequest h blob opts s)\<rparr> c1 = (u, c)"
    by (cases "uploadBlob h (\<lambda>init. outside (fetch init)) s blob
         \<lparr>signal = None, auth = None,
          onPayment = Some (\<lambda>s b request. handlePaymentRequest blob opts s request),
          onAuth = Some (\<lambda>s b. handleAuthRequest h blob opts s)\<rparr> c1")
  show ?thesis
  proof (cases "is_descriptor mres")
    case True
    then obtain m where "mres = Inr (Some m)"
      by (cases mres rule: is_descriptor.cases) auto
    with Some mi show ?thesis
      by (auto simp: forServer_def tryServer_def attemptMirror_def saveResult_def inside_def
            resolve_def Let_def
          split: option.splits prod.splits sum.splits)
  next
    case False
    then have none: "(case mres of Inl e \<Rightarrow> None | Inr metadata \<Rightarrow> metadata) = None"
      by (cases mres rule: is_descriptor.cases) auto
    show ?thesis
      using Some mi up False none
      by (cases u)
         (auto simp: forServer_def tryServer_def attemptMirror_def saveResult_def inside_def
            resolve_def Let_def
          split: option.splits prod.splits sum.splits)
  qed
qed

subsection \<open>Runs in the small world\<close>

text \<open>
  A mirror that copies to every server but C and refuses once signal 7 is aborted; a
  network that refuses every request carrying that signal; servers that answer the
  check with a status of their own.
\<close>

lemmas ex_multi = multiServerUpload_def startRun_def forServer_def tryServer_def
  attemptMirror_def saveResult_def inside_def outside_def handlePaymentRequest_def
  handleAuthRequest_def outcome_of_def history_of_def ex_options_def ex_mirror_def
  cancelled_def flaky_def ex_run

lemma outcome_of_run:
  "fst (outcome_of x) = map_sum id (\<lambda>m. map m [''A'', ''B'', ''C'']) (fst x)"
  "fst (snd (outcome_of x)) = initialUpload (snd x)"
  "snd (snd (outcome_of x)) = calls (snd x)"
  by (simp_all add: outcome_of_def split: prod.split)

lemma ex_quiet: "quiet ex_options ''blob''" "quiet (ex_options\<lparr>signal := Some 7\<rparr>) ''blob''"
  by (simp_all add: quiet_def ex_options_def resolve_def)


lemma ex_multi_ACB:
  "outcome_of (multiServerUpload ex_mirror ex_helpers (fetch_of (answering (\<lambda>s. 200)))
      [''A'', ''C'', ''B''] ''blob'' ex_options []) =
   (Inr [Some (Some ''blob at A''), Some (Some ''blob at A copied to B''),
         Some (Some ''blob at C'')],
    Some ''blob at A'',
    [UploadCall ''A'' (Inr (Some ''blob at A'')), OnUpload ''A'',
     MirrorCall ''C'' ''blob at A'' None (Inl (HTTPError 404)),
     UploadCall ''C'' (Inr (Some ''blob at C'')), OnUpload ''C'',
     MirrorCall ''B'' ''blob at A'' None (Inr (Some ''blob at A copied to B'')),
     OnUpload ''B''])"
  by (simp add: ex_multi)

lemma ex_multi_partial:
  "outcome_of (multiServerUpload ex_mirror ex_helpers (fetch_of (answering (\<lambda>s. if s = ''C'' then 500 else 200)))
      [''A'', ''B'', ''C''] ''blob'' ex_options []) =
   (Inr [Some (Some ''blob at A''), Some (Some ''blob at A copied to B''), None],
    Some ''blob at A'',
    [UploadCall ''A'' (Inr (Some ''blob at A'')), OnUpload ''A'',
     MirrorCall ''B'' ''blob at A'' None (Inr (Some ''blob at A copied to B'')),
     OnUpload ''B'',
     MirrorCall ''C'' ''blob at A'' None (Inl (HTTPError 404)),
     UploadCall ''C'' (Inl (HTTPError 500)), OnError ''C'' (HTTPError 500)])"
  by (simp add: ex_multi)

lemma ex_multi_cancelled:
  "outcome_of (multiServerUpload ex_mirror ex_helpers (fetch_of (cancelled (\<lambda>s. 200)))
      [''A'', ''B''] ''blob'' (ex_options\<lparr>signal := Some 7\<rparr>) []) =
   (Inr [Some (Some ''blob at A''), Some (Some ''blob at B''), None],
    Some ''blob at A'',
    [UploadCall ''A'' (Inr (Some ''blob at A'')), OnUpload ''A'',
     MirrorCall ''B'' ''blob at A'' (Some 7) (Inl (Error ''AbortError'')),
     UploadCall ''B'' (Inr (Some ''blob at B'')), OnUpload ''B''])"
  by (simp add: ex_multi)

lemma ex_multi_onError_throws:
  "outcome_of (multiServerUpload ex_mirror ex_helpers (fetch_of (answering (\<lambda>s. 500)))
      [''A''] ''blob'' (ex_options\<lparr>onError := Some (\<lambda>s b e. reject (Error ''observer failed''))\<rparr>) []) =
   (Inl (Error ''observer failed''), None,
    [UploadCall ''A'' (Inl (HTTPError 500)), OnError ''A'' (HTTPError 500)])"
  by (simp add: ex_multi)

lemma ex_multi_onUpload_throws:
  "outcome_of (multiServerUpload ex_mirror ex_helpers (fetch_of (answering (\<lambda>s. 200)))
      [''A''] ''blob'' (ex_options\<lparr>onUpload := Some (\<lambda>s b. reject (Error ''observer failed''))\<rparr>) []) =
   (Inr [Some (Some ''blob at A''), None, None], Some ''blob at A'',
    [UploadCall ''A'' (Inr (Some ''blob at A'')), OnUpload ''A'',
     OnError ''A'' (Error ''observer failed'')])"
  by (simp add: ex_multi)

lemma ex_multi_not_an_Error:
  "outcome_of (multiServerUpload ex_mirror ex_helpers (fetch_of (answering (\<lambda>s. 402)))
      [''A''] ''blob'' (ex_options\<lparr>onPayment := Some (onPayment_of (\<lambda>w s b p. Inl (Thrown ''no funds'')))\<rparr>) []) =
   (Inr [None, None, None], None,
    [UploadCall ''A'' (Inl (Thrown ''no funds''))])"
  by (simp add: ex_multi)

lemma ex_multi_twice:
  "outcome_of (multiServerUpload ex_mirror ex_helpers (fetch_of (flaky))
      [''A'', ''A''] ''blob'' ex_options []) =
   (Inr [Some (Some ''blob at A''), None, None], Some ''blob at A'',
    [UploadCall ''A'' (Inl (HTTPError 500)), OnError ''A'' (HTTPError 500),
     UploadCall ''A'' (Inr (Some ''blob at A'')), OnUpload ''A''])"
  by (simp add: ex_multi)

lemma ex_history_402:
  "history_of (multiServerUpload ex_mirror ex_helpers (fetch_of (answering (\<lambda>s. 402)))
      [''A'', ''C''] ''blob'' ex_options []) =
   [Fetched (ex_request ''A'' ''HEAD''
        [(''X-SHA-256'', ''sha256 of blob''), (''X-Content-Length'', ''4'')] None)
      (Inr (challenge 402)),
    AskedPayment ''A'' ''blob'' ''1 sat'' (Inr ''token for A''),
    Fetched (ex_request ''A'' ''PUT'' [(''X-Cashu'', ''cashuA token for A'')] (Some ''blob''))
      (Inr (stored ''A'')),
    Fetched (ex_request ''A'' ''PUT'' [] (Some ''blob''))
      (Inr (stored ''A'')),
    Fetched (ex_request ''C'' ''HEAD''
        [(''X-SHA-256'', ''sha256 of blob''), (''X-Content-Length'', ''4'')] None)
      (Inr (challenge 402)),
    AskedPayment ''C'' ''blob'' ''1 sat'' (Inr ''token for C''),
    Fetched (ex_request ''C'' ''PUT'' [(''X-Cashu'', ''cashuA token for C'')] (Some ''blob''))
      (Inr (stored ''C'')),
    Fetched (ex_request ''C'' ''PUT'' [] (Some ''blob''))
      (Inr (stored ''C''))]"
  by (simp add: ex_multi)

lemma ex_history_cancelled:
  "history_of (multiServerUpload ex_mirror ex_helpers (fetch_of (cancelled (\<lambda>s. 200)))
      [''A'', ''B''] ''blob'' (ex_options\<lparr>signal := Some 7\<rparr>) []) =
   [Fetched (ex_request ''A'' ''HEAD''
        [(''X-SHA-256'', ''sha256 of blob''), (''X-Content-Length'', ''4'')] None)
      (Inr (challenge 200)),
    Fetched (ex_request ''A'' ''PUT'' [] (Some ''blob''))
      (Inr (stored ''A'')),
    Fetched (ex_request ''B'' ''HEAD''
        [(''X-SHA-256'', ''sha256 of blob''), (''X-Content-Length'', ''4'')] None)
      (Inr (challenge 200)),
    Fetched (ex_request ''B'' ''PUT'' [] (Some ''blob''))
      (Inr (stored ''B''))]"
  by (simp add: ex_multi)

subsection \<open>Failures stay with their server\<close>

lemma forServer_turn_quiet:
  assumes quiet: "quiet opts blob"
  shows "case forServer mirrorBlob h fetch blob opts s r0 of
     (res, r) \<Rightarrow>
       res = Inr () \<and>
       (\<exists>new. calls r = calls r0 @ new \<and> attempted new = [s] \<and>
          reported new =
            (if onError opts = None then []
             else filter (\<lambda>(s, e). instanceof_Error e) (failures new)) \<and>
          dom (results r) = dom (results r0) \<union> fst ` set (successes new) \<and>
          (\<forall>s' m. results r s' = Some m \<longrightarrow>
             results r0 s' = Some m \<or> (s', m) \<in> set (successes new)))"
proof -
  have U: "x = Inr ()" if "onUpload opts = Some tell" "tell s' blob w = (x, w')"
    for tell s' w x w'
  proof -
    from quiet that(1) have "fst (tell s' blob w) = Inr ()"
      unfolding quiet_def by blast
    with that(2) show ?thesis by simp
  qed
  have E: "x = Inr ()" if "onError opts = Some tell" "tell s' blob e w = (x, w')"
    for tell s' e w x w'
  proof -
    from quiet that(1) have "fst (tell s' blob e w) = Inr ()"
      unfolding quiet_def by blast
    with that(2) show ?thesis by simp
  qed
  show ?thesis
  proof (cases "initialUpload r0")
    case None
    obtain u c where up: "uploadBlob h (\<lambda>init. outside (fetch init)) s blob
         \<lparr>signal = None, auth = None,
          onPayment = Some (\<lambda>s b request. handlePaymentRequest blob opts s request),
          onAuth = Some (\<lambda>s b. handleAuthRequest h blob opts s)\<rparr> (mem r0) = (u, c)"
      by (cases "uploadBlob h (\<lambda>init. outside (fetch init)) s blob
         \<lparr>signal = None, auth = None,
          onPayment = Some (\<lambda>s b request. handlePaymentRequest blob opts s request),
          onAuth = Some (\<lambda>s b. handleAuthRequest h blob opts s)\<rparr> (mem r0)")
    show ?thesis
      using None up
      by (cases u)
         (auto simp: forServer_def tryServer_def attemptMirror_def saveResult_def inside_def
            resolve_def Let_def
          split: option.splits prod.splits sum.splits dest: U E)
  next
    case (Some d)
    obtain mres c1 where mi: "mirrorBlob s d
         \<lparr>signal = signal opts, auth = None,
          onPayment = Some (handlePaymentRequest blob opts),
          onAuth = Some (handleAuthRequest h blob opts)\<rparr> (mem r0) = (mres, c1)"
      by (cases "mirrorBlob s d
         \<lparr>signal = signal opts, auth = None,
          onPayment = Some (handlePaymentRequest blob opts),
          onAuth = Some (handleAuthRequest h blob opts)\<rparr> (mem r0)")
    obtain u c where up: "uploadBlob h (\<lambda>init. outside (fetch init)) s blob
         \<lparr>signal = None, auth = None,
          onPayment = Some (\<lambda>s b request. handlePaymentRequest blob opts s request),
          onAuth = Some (\<lambda>s b. handleAuthRequest h blob opts s)\<rparr> c1 = (u, c)"
      by (cases "uploadBlob h (\<lambda>init. outside (fetch init)) s blob
         \<lparr>signal = None, auth = None,
          onPayment = Some (\<lambda>s b request. handlePaymentRequest blob opts s request),
          onAuth = Some (\<lambda>s b. handleAuthRequest h blob opts s)\<rparr> c1")
    show ?thesis
    proof (cases "is_descriptor mres")
      case True
      then obtain m where "mres = Inr (Some m)"
        by (cases mres rule: is_descriptor.cases) auto
      with Some mi show ?thesis
        by (auto simp: forServer_def tryServer_def attemptMirror_def saveResult_def inside_def
              resolve_def Let_def
            split: option.splits prod.splits sum.splits dest: U E)
    next
      case False
      then have none: "(case mres of Inl e \<Rightarrow> None | Inr metadata \<Rightarrow> metadata) = None"
        by (cases mres rule: is_descriptor.cases) auto
      from False have silent: "success_of (MirrorCall s d sg mres) = []"
          "turn_of (MirrorCall s d sg mres) = []" for sg
        by (cases mres rule: is_descriptor.cases; simp)+
      show ?thesis
        using Some mi up none silent
        by (cases u)
           (auto simp: forServer_def tryServer_def attemptMirror_def saveResult_def inside_def
              resolve_def Let_def
            split: option.splits prod.splits sum.splits dest: U E)
    qed
  qed
qed

lemma forOf_quiet:
  assumes quiet: "quiet opts blob"
  shows "case forOf (forServer mirrorBlob h fetch blob opts) servers r0 of
     (res, r) \<Rightarrow>
       res = Inr () \<and>
       (\<exists>new. calls r = calls r0 @ new \<and> attempted new = servers \<and>
          reported new =
            (if onError opts = None then []
             else filter (\<lambda>(s, e). instanceof_Error e) (failures new)) \<and>
          dom (results r) = dom (results r0) \<union> fst ` set (successes new) \<and>
          (\<forall>s' m. results r s' = Some m \<longrightarrow>
             results r0 s' = Some m \<or> (s', m) \<in> set (successes new)))"
proof (induction servers arbitrary: r0)
  case Nil
  show ?case by simp
next
  case (Cons s ss)
  obtain res1 r1 where step: "forServer mirrorBlob h fetch blob opts s r0 = (res1, r1)"
    by (cases "forServer mirrorBlob h fetch blob opts s r0")
  from forServer_turn_quiet [where opts = opts and blob = blob and mirrorBlob = mirrorBlob
      and h = h and fetch = fetch and s = s and ?r0.0 = r0, OF quiet] step
  obtain new1 where one: "res1 = Inr ()" "calls r1 = calls r0 @ new1" "attempted new1 = [s]"
    "reported new1 =
       (if onError opts = None then []
        else filter (\<lambda>(s, e). instanceof_Error e) (failures new1))"
    "dom (results r1) = dom (results r0) \<union> fst ` set (successes new1)"
    "\<forall>s' m. results r1 s' = Some m \<longrightarrow>
       results r0 s' = Some m \<or> (s', m) \<in> set (successes new1)"
    by auto
  obtain res r where rest: "forOf (forServer mirrorBlob h fetch blob opts) ss r1 = (res, r)"
    by (cases "forOf (forServer mirrorBlob h fetch blob opts) ss r1")
  from Cons.IH [of r1] rest
  obtain new2 where two: "res = Inr ()" "calls r = calls r1 @ new2" "attempted new2 = ss"
    "reported new2 =
       (if onError opts = None then []
        else filter (\<lambda>(s, e). instanceof_Error e) (failures new2))"
    "dom (results r) = dom (results r1) \<union> fst ` set (successes new2)"
    "\<forall>s' m. results r s' = Some m \<longrightarrow>
       results r1 s' = Some m \<or> (s', m) \<in> set (successes new2)"
    by auto
  have a: "calls r = calls r0 @ (new1 @ new2)" "attempted (new1 @ new2) = s # ss"
    using one two by simp_all
  have b: "reported (new1 @ new2) =
            (if onError opts = None then []
             else filter (\<lambda>(s, e). instanceof_Error e) (failures (new1 @ new2)))"
    using one(4) two(4) by simp
  have c: "dom (results r) = dom (results r0) \<union> fst ` set (successes (new1 @ new2))"
    using one(5) two(5) by auto
  have d: "\<forall>s' m. results r s' = Some m \<longrightarrow>
             results r0 s' = Some m \<or> (s', m) \<in> set (successes (new1 @ new2))"
    using one(6) two(6) by simp blast
  from a b c d have "\<exists>new. calls r = calls r0 @ new \<and> attempted new = s # ss \<and>
          reported new =
            (if onError opts = None then []
             else filter (\<lambda>(s, e). instanceof_Error e) (failures new)) \<and>
          dom (results r) = dom (results r0) \<union> fst ` set (successes new) \<and>
          (\<forall>s' m. results r s' = Some m \<longrightarrow>
             results r0 s' = Some m \<or> (s', m) \<in> set (successes new))"
    by blast
  then show ?case
    using one(1) two(1) by (simp add: step rest)
qed

lemma turn_partition:
  "set (turn_of c) = fst ` set (success_of c) \<union> fst ` set (failure_of c) \<and>
   (success_of c = [] \<or> failure_of c = [])"
  by (cases c rule: success_of.cases) simp_all

lemma outcome_partition:
  "fst ` set (successes cs) \<union> fst ` set (failures cs) = set (attempted cs)"
  by (induction cs) (auto simp: turn_partition)

lemma disjoint_parts:
  "A \<inter> B = {} \<Longrightarrow> (Sc \<union> Fc) \<inter> (A \<union> B) = {} \<Longrightarrow> Sc \<inter> Fc = {} \<Longrightarrow>
   (Sc \<union> A) \<inter> (Fc \<union> B) = {}"
  by blast

lemma outcome_disjoint:
  "distinct (attempted cs) \<Longrightarrow> fst ` set (successes cs) \<inter> fst ` set (failures cs) = {}"
proof (induction cs)
  case Nil
  show ?case by simp
next
  case (Cons c cs)
  from Cons.prems have d: "distinct (attempted cs)" "set (turn_of c) \<inter> set (attempted cs) = {}"
    by auto
  have own: "fst ` set (success_of c) \<inter> fst ` set (failure_of c) = {}"
    using turn_partition [of c] by auto
  have turn: "set (turn_of c) = fst ` set (success_of c) \<union> fst ` set (failure_of c)"
    using turn_partition [of c] by simp
  have split: "fst ` set (successes (c # cs)) = fst ` set (success_of c) \<union> fst ` set (successes cs)"
    "fst ` set (failures (c # cs)) = fst ` set (failure_of c) \<union> fst ` set (failures cs)"
    by (simp_all add: image_Un)
  have apart: "(fst ` set (success_of c) \<union> fst ` set (failure_of c)) \<inter>
      (fst ` set (successes cs) \<union> fst ` set (failures cs)) = {}"
    using d(2) by (simp only: turn outcome_partition [of cs])
  show ?case
    unfolding split by (rule disjoint_parts [OF Cons.IH [OF d(1)] apart own])
qed

text \<open>
  Claim C4, as amended.  The claim has the run never raise and a server absent from
  the mapping exactly when the failure observer was told of it.  Provided the two
  observers do not throw: the run returns the mapping; every server of the list gets
  its turn, in order, whatever happened before; the failure observer, when there is
  one, is told of exactly the uploads that threw an \<^verbatim>\<open>Error\<close> instance, in order
  (a thrown value that is no \<^verbatim>\<open>Error\<close> is dropped in silence); the mapping holds
  exactly the servers that got a result, with a result they got; and for a list without
  repetition, a server of the list is absent from the mapping exactly when its upload
  threw.
\<close>

theorem partial_failure:
  assumes quiet: "quiet opts blob"
  shows "case multiServerUpload mirrorBlob h fetch servers blob opts w of
     (res, r) \<Rightarrow>
       res = Inr (results r) \<and> attempted (calls r) = servers \<and>
       reported (calls r) =
         (if onError opts = None then []
          else filter (\<lambda>(s, e). instanceof_Error e) (failures (calls r))) \<and>
       dom (results r) = fst ` set (successes (calls r)) \<and>
       (\<forall>s m. results r s = Some m \<longrightarrow> (s, m) \<in> set (successes (calls r))) \<and>
       (distinct servers \<longrightarrow>
          (\<forall>s \<in> set servers. s \<notin> dom (results r) \<longleftrightarrow> s \<in> fst ` set (failures (calls r))))"
proof -
  obtain res r where run:
    "forOf (forServer mirrorBlob h fetch blob opts) servers (startRun opts w) = (res, r)"
    by (cases "forOf (forServer mirrorBlob h fetch blob opts) servers (startRun opts w)")
  from forOf_quiet [where opts = opts and blob = blob and mirrorBlob = mirrorBlob
      and h = h and fetch = fetch and servers = servers and ?r0.0 = "startRun opts w",
      OF quiet] run
  have inv: "res = Inr ()" "attempted (calls r) = servers"
    "reported (calls r) =
       (if onError opts = None then []
        else filter (\<lambda>(s, e). instanceof_Error e) (failures (calls r)))"
    "dom (results r) = fst ` set (successes (calls r))"
    "\<forall>s m. results r s = Some m \<longrightarrow> (s, m) \<in> set (successes (calls r))"
    by (auto simp: startRun_def)
  have "s \<notin> dom (results r) \<longleftrightarrow> s \<in> fst ` set (failures (calls r))"
    if "distinct servers" "s \<in> set servers" for s
    using that inv(2) inv(4) outcome_partition [of "calls r"] outcome_disjoint [of "calls r"]
    by auto
  with inv show ?thesis
    by (simp add: multiServerUpload_def run)
qed

text \<open>
  The claim fails in four ways: an \<^verbatim>\<open>onError\<close> that throws makes the run raise; an
  \<^verbatim>\<open>onUpload\<close> that throws has the failure observer told of a server that is in the
  mapping; a callback that throws a value that is no \<^verbatim>\<open>Error\<close> leaves the server absent
  and the observer untold; a server listed twice can fail first and succeed after.
\<close>

theorem partial_failure_counterexample:
  "outcome_of (multiServerUpload ex_mirror ex_helpers (fetch_of (answering (\<lambda>s. 500)))
      [''A''] ''blob'' (ex_options\<lparr>onError := Some (\<lambda>s b e. reject (Error ''observer failed''))\<rparr>) []) =
   (Inl (Error ''observer failed''), None,
    [UploadCall ''A'' (Inl (HTTPError 500)), OnError ''A'' (HTTPError 500)]) \<and>
   outcome_of (multiServerUpload ex_mirror ex_helpers (fetch_of (answering (\<lambda>s. 200)))
      [''A''] ''blob'' (ex_options\<lparr>onUpload := Some (\<lambda>s b. reject (Error ''observer failed''))\<rparr>) []) =
   (Inr [Some (Some ''blob at A''), None, None], Some ''blob at A'',
    [UploadCall ''A'' (Inr (Some ''blob at A'')), OnUpload ''A'',
     OnError ''A'' (Error ''observer failed'')]) \<and>
   outcome_of (multiServerUpload ex_mirror ex_helpers (fetch_of (answering (\<lambda>s. 402)))
      [''A''] ''blob'' (ex_options\<lparr>onPayment := Some (onPayment_of (\<lambda>w s b p. Inl (Thrown ''no funds'')))\<rparr>) []) =
   (Inr [None, None, None], None,
    [UploadCall ''A'' (Inl (Thrown ''no funds''))]) \<and>
   outcome_of (multiServerUpload ex_mirror ex_helpers (fetch_of (flaky))
      [''A'', ''A''] ''blob'' ex_options []) =
   (Inr [Some (Some ''blob at A''), None, None], Some ''blob at A'',
    [UploadCall ''A'' (Inl (HTTPError 500)), OnError ''A'' (HTTPError 500),
     UploadCall ''A'' (Inr (Some ''blob at A'')), OnUpload ''A''])"
  by (simp add: ex_multi_onError_throws ex_multi_onUpload_throws ex_multi_not_an_Error
        ex_multi_twice)

theorem partial_failure_witness:
  "quiet ex_options ''blob'' \<and>
   fst (outcome_of (multiServerUpload ex_mirror ex_helpers (fetch_of (answering (\<lambda>s. if s = ''C'' then 500 else 200)))
      [''A'', ''B'', ''C''] ''blob'' ex_options [])) =
     Inr [Some (Some ''blob at A''), Some (Some ''blob at A copied to B''), None] \<and>
   reported (snd (snd (outcome_of (multiServerUpload ex_mirror ex_helpers (fetch_of (answering (\<lambda>s. if s = ''C'' then 500 else 200)))
      [''A'', ''B'', ''C''] ''blob'' ex_options [])))) =
     [(''C'', HTTPError 500)] \<and>
   attempted (snd (snd (outcome_of (multiServerUpload ex_mirror ex_helpers (fetch_of (answering (\<lambda>s. if s = ''C'' then 500 else 200)))
      [''A'', ''B'', ''C''] ''blob'' ex_options [])))) =
     [''A'', ''B'', ''C'']"
  using partial_failure [where opts = ex_options and blob = "''blob''" and mirrorBlob = ex_mirror
      and h = ex_helpers and fetch = "fetch_of (answering (\<lambda>s. if s = ''C'' then 500 else 200))"
      and servers = "[''A'', ''B'', ''C'']" and w = "[]", OF ex_quiet(1)]
  by (simp add: ex_quiet ex_multi_partial)

subsection \<open>Mirror first\<close>

lemma mirrored_simps [simp]:
  "mirrored [] = []" "mirrored (c # cs) = mirror_of c @ mirrored cs"
  "mirrored (xs @ ys) = mirrored xs @ mirrored ys"
  by (simp_all add: mirrored_def)

lemma first_stored_simps:
  "first_stored [] = None"
  "first_stored (c # cs) = (case stored_of c of [] \<Rightarrow> first_stored cs | d # ds \<Rightarrow> Some d)"
  by (simp_all add: first_stored_def split: list.split)

lemma first_stored_append:
  "first_stored (xs @ ys) = (case first_stored xs of Some d \<Rightarrow> Some d | None \<Rightarrow> first_stored ys)"
  by (induction xs) (simp_all add: first_stored_simps split: list.split)

lemma observers_unseen:
  "list_all is_observer obs \<Longrightarrow> mirrored obs = [] \<and> first_stored obs = None"
  by (induction obs) (auto simp: first_stored_simps elim: is_observer.elims)

lemma follows_observers:
  "list_all is_observer obs \<Longrightarrow> follows cur (obs @ cs) = follows cur cs"
  by (induction obs) (auto elim: is_observer.elims)

lemma first_stored_upload:
  "list_all is_observer obs \<Longrightarrow> first_stored (UploadCall s u # obs) = stored_by u"
  by (cases u rule: is_descriptor.cases) (simp_all add: first_stored_simps observers_unseen)

lemma follows_fallback:
  "\<not> is_descriptor mres \<Longrightarrow>
   follows (Some d) (MirrorCall s d sg mres # UploadCall s u # cs) = follows (Some d) cs"
  by (cases mres rule: is_descriptor.cases) simp_all

lemma forServer_shape:
  "case forServer mirrorBlob h fetch blob opts s r0 of
     (res, r) \<Rightarrow>
       \<exists>new. calls r = calls r0 @ new \<and> attempted new = [s] \<and>
         (\<forall>cs. follows (initialUpload r) cs \<longrightarrow> follows (initialUpload r0) (new @ cs)) \<and>
         initialUpload r =
           (case initialUpload r0 of Some d \<Rightarrow> Some d | None \<Rightarrow> first_stored new) \<and>
         (\<forall>(s', d, sg) \<in> set (mirrored new). sg = signal opts \<and> initialUpload r0 = Some d)"
proof -
  obtain res r where run: "forServer mirrorBlob h fetch blob opts s r0 = (res, r)"
    by (cases "forServer mirrorBlob h fetch blob opts s r0")
  from forServer_turn [where mirrorBlob = mirrorBlob and h = h and fetch = fetch and blob = blob
      and opts = opts and s = s and ?r0.0 = r0] run
  obtain obs where obs: "list_all is_observer obs" and
    shape: "case initialUpload r0 of
       None \<Rightarrow>
         (\<exists>u. calls r = calls r0 @ UploadCall s u # obs \<and>
              initialUpload r = stored_by u \<and>
              results r = (case u of Inl e \<Rightarrow> results r0 | Inr m \<Rightarrow> (results r0)(s \<mapsto> m)))
     | Some d \<Rightarrow>
         initialUpload r = Some d \<and>
         ((\<exists>m. calls r = calls r0 @ MirrorCall s d (signal opts) (Inr (Some m)) # obs \<and>
               results r = (results r0)(s \<mapsto> Some m)) \<or>
          (\<exists>mres u. \<not> is_descriptor mres \<and>
               calls r = calls r0 @ MirrorCall s d (signal opts) mres # UploadCall s u # obs \<and>
               results r = (case u of Inl e \<Rightarrow> results r0 | Inr m \<Rightarrow> (results r0)(s \<mapsto> m))))"
    by auto
  note quiet_obs = observers_silent [OF obs] observers_unseen [OF obs]
  have "\<exists>new. calls r = calls r0 @ new \<and> attempted new = [s] \<and>
         (\<forall>cs. follows (initialUpload r) cs \<longrightarrow> follows (initialUpload r0) (new @ cs)) \<and>
         initialUpload r =
           (case initialUpload r0 of Some d \<Rightarrow> Some d | None \<Rightarrow> first_stored new) \<and>
         (\<forall>(s', d, sg) \<in> set (mirrored new). sg = signal opts \<and> initialUpload r0 = Some d)"
  proof (cases "initialUpload r0")
    case None
    with shape obtain u where u: "calls r = calls r0 @ UploadCall s u # obs"
      "initialUpload r = stored_by u"
      by auto
    show ?thesis
      by (rule exI [where x = "UploadCall s u # obs"])
         (simp add: u None quiet_obs follows_observers [OF obs] first_stored_upload [OF obs])
  next
    case (Some d)
    with shape have keep: "initialUpload r = Some d"
      by simp
    from Some shape consider
      (mirror) m where "calls r = calls r0 @ MirrorCall s d (signal opts) (Inr (Some m)) # obs"
    | (fallback) mres u where "\<not> is_descriptor mres"
        "calls r = calls r0 @ MirrorCall s d (signal opts) mres # UploadCall s u # obs"
      by auto
    then show ?thesis
    proof cases
      case mirror
      show ?thesis
        by (rule exI [where x = "MirrorCall s d (signal opts) (Inr (Some m)) # obs"])
           (simp add: mirror Some keep quiet_obs follows_observers [OF obs])
    next
      case fallback
      from fallback(1) have silent: "turn_of (MirrorCall s d (signal opts) mres) = []"
        by (cases mres rule: is_descriptor.cases) simp_all
      show ?thesis
        by (rule exI [where x = "MirrorCall s d (signal opts) mres # UploadCall s u # obs"])
           (simp add: fallback Some keep quiet_obs silent follows_observers [OF obs]
              follows_fallback [OF fallback(1)])
    qed
  qed
  then show ?thesis
    by (simp add: run)
qed

lemma forOf_shape:
  "case forOf (forServer mirrorBlob h fetch blob opts) servers r0 of
     (res, r) \<Rightarrow>
       \<exists>new. calls r = calls r0 @ new \<and> (res = Inr () \<longrightarrow> attempted new = servers) \<and>
         follows (initialUpload r0) new \<and>
         initialUpload r =
           (case initialUpload r0 of Some d \<Rightarrow> Some d | None \<Rightarrow> first_stored new) \<and>
         (\<forall>(s', d, sg) \<in> set (mirrored new). sg = signal opts \<and>
            Some d = (case initialUpload r0 of Some d0 \<Rightarrow> Some d0 | None \<Rightarrow> first_stored new))"
proof (induction servers arbitrary: r0)
  case Nil
  show ?case by (simp add: first_stored_simps split: option.split)
next
  case (Cons s ss)
  obtain res1 r1 where step: "forServer mirrorBlob h fetch blob opts s r0 = (res1, r1)"
    by (cases "forServer mirrorBlob h fetch blob opts s r0")
  from forServer_shape [where mirrorBlob = mirrorBlob and h = h and fetch = fetch and blob = blob
      and opts = opts and s = s and ?r0.0 = r0] step
  obtain new1 where one: "calls r1 = calls r0 @ new1" "attempted new1 = [s]"
    "\<forall>cs. follows (initialUpload r1) cs \<longrightarrow> follows (initialUpload r0) (new1 @ cs)"
    "initialUpload r1 =
       (case initialUpload r0 of Some d \<Rightarrow> Some d | None \<Rightarrow> first_stored new1)"
    "\<forall>(s', d, sg) \<in> set (mirrored new1). sg = signal opts \<and> initialUpload r0 = Some d"
    by auto
  show ?case
  proof (cases res1)
    case (Inl e)
    from one(3) have "follows (initialUpload r0) (new1 @ [])"
      by (simp del: append_Nil2)
    then have f: "follows (initialUpload r0) new1"
      by simp
    have "calls r1 = calls r0 @ new1 \<and> follows (initialUpload r0) new1 \<and>
         initialUpload r1 =
           (case initialUpload r0 of Some d \<Rightarrow> Some d | None \<Rightarrow> first_stored new1) \<and>
         (\<forall>(s', d, sg) \<in> set (mirrored new1). sg = signal opts \<and>
            Some d = (case initialUpload r0 of Some d0 \<Rightarrow> Some d0 | None \<Rightarrow> first_stored new1))"
      using one f by auto
    then show ?thesis
      using Inl by (simp add: step)
  next
    case (Inr u)
    obtain res r where rest: "forOf (forServer mirrorBlob h fetch blob opts) ss r1 = (res, r)"
      by (cases "forOf (forServer mirrorBlob h fetch blob opts) ss r1")
    from Cons.IH [of r1] rest
    obtain new2 where two: "calls r = calls r1 @ new2" "res = Inr () \<longrightarrow> attempted new2 = ss"
      "follows (initialUpload r1) new2"
      "initialUpload r =
         (case initialUpload r1 of Some d \<Rightarrow> Some d | None \<Rightarrow> first_stored new2)"
      "\<forall>(s', d, sg) \<in> set (mirrored new2). sg = signal opts \<and>
         Some d = (case initialUpload r1 of Some d0 \<Rightarrow> Some d0 | None \<Rightarrow> first_stored new2)"
      by auto
    have a: "calls r = calls r0 @ (new1 @ new2)"
      "res = Inr () \<longrightarrow> attempted (new1 @ new2) = s # ss"
      "follows (initialUpload r0) (new1 @ new2)"
      using one two by simp_all
    have b: "initialUpload r =
         (case initialUpload r0 of Some d \<Rightarrow> Some d | None \<Rightarrow> first_stored (new1 @ new2))"
      using one(4) two(4) by (simp add: first_stored_append split: option.split)
    have c: "\<forall>(s', d, sg) \<in> set (mirrored (new1 @ new2)). sg = signal opts \<and>
         Some d = (case initialUpload r0 of Some d0 \<Rightarrow> Some d0
                   | None \<Rightarrow> first_stored (new1 @ new2))"
      using one(4) one(5) two(5)
      by (auto simp: first_stored_append split: option.splits)
    from a b c have "\<exists>new. calls r = calls r0 @ new \<and>
         (res = Inr () \<longrightarrow> attempted new = s # ss) \<and>
         follows (initialUpload r0) new \<and>
         initialUpload r =
           (case initialUpload r0 of Some d \<Rightarrow> Some d | None \<Rightarrow> first_stored new) \<and>
         (\<forall>(s', d, sg) \<in> set (mirrored new). sg = signal opts \<and>
            Some d = (case initialUpload r0 of Some d0 \<Rightarrow> Some d0 | None \<Rightarrow> first_stored new))"
      by blast
    then show ?thesis
      using Inr by (simp add: step rest)
  qed
qed

lemma startRun_fields:
  "initialUpload (startRun opts w) = None" "calls (startRun opts w) = []"
  "results (startRun opts w) = Map.empty"
  by (simp_all add: startRun_def)



subsection \<open>The source of every mirror\<close>

text \<open>
  Claim C10.  At the end of a run \<^verbatim>\<open>initialUpload\<close> is the first descriptor an upload
  returned, and every mirror attempt of the run copied from that descriptor.  From any
  moment at which \<^verbatim>\<open>initialUpload\<close> holds a descriptor, it holds the same descriptor
  after any further servers, and every further mirror attempt copies from it, whatever
  later uploads return.
\<close>

theorem first_upload_is_the_source:
  "(case multiServerUpload mirrorBlob h fetch servers blob opts w of
      (res, r) \<Rightarrow>
        initialUpload r = first_stored (calls r) \<and>
        (\<forall>(s, d, sg) \<in> set (mirrored (calls r)). first_stored (calls r) = Some d)) \<and>
   (\<forall>d. initialUpload r0 = Some d \<longrightarrow>
      (case forOf (forServer mirrorBlob h fetch blob opts) servers r0 of
         (res, r) \<Rightarrow>
           initialUpload r = Some d \<and>
           (\<forall>(s, d', sg) \<in> set (mirrored (drop (length (calls r0)) (calls r))). d' = d)))"
proof (intro conjI allI impI)
  obtain res r where run:
    "forOf (forServer mirrorBlob h fetch blob opts) servers (startRun opts w) = (res, r)"
    by (cases "forOf (forServer mirrorBlob h fetch blob opts) servers (startRun opts w)")
  from forOf_shape [where mirrorBlob = mirrorBlob and h = h and fetch = fetch and blob = blob
      and opts = opts and servers = servers and ?r0.0 = "startRun opts w"] run
  have "initialUpload r = first_stored (calls r)"
    "\<forall>(s, d, sg) \<in> set (mirrored (calls r)). first_stored (calls r) = Some d"
    by (auto simp: startRun_fields)
  then show "case multiServerUpload mirrorBlob h fetch servers blob opts w of
      (res, r) \<Rightarrow>
        initialUpload r = first_stored (calls r) \<and>
        (\<forall>(s, d, sg) \<in> set (mirrored (calls r)). first_stored (calls r) = Some d)"
    by (cases res) (simp_all add: multiServerUpload_def run)
next
  fix d
  assume set: "initialUpload r0 = Some d"
  obtain res r where run:
    "forOf (forServer mirrorBlob h fetch blob opts) servers r0 = (res, r)"
    by (cases "forOf (forServer mirrorBlob h fetch blob opts) servers r0")
  from forOf_shape [where mirrorBlob = mirrorBlob and h = h and fetch = fetch and blob = blob
      and opts = opts and servers = servers and ?r0.0 = r0] run set
  have "initialUpload r = Some d"
    "\<forall>(s, d', sg) \<in> set (mirrored (drop (length (calls r0)) (calls r))). d' = d"
    by auto
  then show "case forOf (forServer mirrorBlob h fetch blob opts) servers r0 of
         (res, r) \<Rightarrow>
           initialUpload r = Some d \<and>
           (\<forall>(s, d', sg) \<in> set (mirrored (drop (length (calls r0)) (calls r))). d' = d)"
    by (simp add: run)
qed

theorem first_upload_is_the_source_witness:
  "fst (snd (outcome_of (multiServerUpload ex_mirror ex_helpers (fetch_of (answering (\<lambda>s. 200)))
      [''A'', ''C'', ''B''] ''blob'' ex_options []))) =
     Some ''blob at A'' \<and>
   first_stored (snd (snd (outcome_of (multiServerUpload ex_mirror ex_helpers (fetch_of (answering (\<lambda>s. 200)))
      [''A'', ''C'', ''B''] ''blob'' ex_options [])))) =
     Some ''blob at A'' \<and>
   mirrored (snd (snd (outcome_of (multiServerUpload ex_mirror ex_helpers (fetch_of (answering (\<lambda>s. 200)))
      [''A'', ''C'', ''B''] ''blob'' ex_options [])))) =
     [(''C'', ''blob at A'', None), (''B'', ''blob at A'', None)]"
  using first_upload_is_the_source [where mirrorBlob = ex_mirror and h = ex_helpers
      and fetch = "fetch_of (answering (\<lambda>s. 200))" and servers = "[''A'', ''C'', ''B'']"
      and blob = "''blob''" and opts = ex_options and w = "[]"
      and ?r0.0 = "startRun ex_options []"]
  by (simp add: case_prod_beta outcome_of_run ex_multi_ACB first_stored_simps startRun_fields)

subsection \<open>The signal\<close>

text \<open>
  Claim C9, as amended.  The claim has one signal reach every network operation and
  stop the loop.  The signal given to the run is handed to every \<^verbatim>\<open>mirrorBlob\<close> call.
  The loop itself never looks at it: provided the observers do not throw, every server
  of the list gets its turn whatever the attempts before it threw, and the run returns
  the mapping gathered.
\<close>

theorem signal_reaches_mirrors:
  assumes quiet: "quiet opts blob"
  shows "case multiServerUpload mirrorBlob h fetch servers blob opts w of
     (res, r) \<Rightarrow>
       res = Inr (results r) \<and> attempted (calls r) = servers \<and>
       (\<forall>(s, d, sg) \<in> set (mirrored (calls r)). sg = signal opts)"
proof -
  obtain res r where run:
    "forOf (forServer mirrorBlob h fetch blob opts) servers (startRun opts w) = (res, r)"
    by (cases "forOf (forServer mirrorBlob h fetch blob opts) servers (startRun opts w)")
  from forOf_quiet [where opts = opts and blob = blob and mirrorBlob = mirrorBlob
      and h = h and fetch = fetch and servers = servers and ?r0.0 = "startRun opts w",
      OF quiet] run
  have a: "res = Inr ()" "attempted (calls r) = servers"
    by (auto simp: startRun_fields)
  from forOf_shape [where mirrorBlob = mirrorBlob and h = h and fetch = fetch and blob = blob
      and opts = opts and servers = servers and ?r0.0 = "startRun opts w"] run
  have b: "\<forall>(s, d, sg) \<in> set (mirrored (calls r)). sg = signal opts"
    by (auto simp: startRun_fields)
  from a b show ?thesis
    by (simp add: multiServerUpload_def run)
qed

text \<open>
  The claim fails on a run whose signal is aborted from the start, with a network and a
  mirror that refuse whatever carries that signal: no request of the run carries it,
  both uploads go through, and B is served after the mirror to it was refused.
\<close>

theorem signal_counterexample:
  "outcome_of (multiServerUpload ex_mirror ex_helpers (fetch_of (cancelled (\<lambda>s. 200)))
      [''A'', ''B''] ''blob'' (ex_options\<lparr>signal := Some 7\<rparr>) []) =
   (Inr [Some (Some ''blob at A''), Some (Some ''blob at B''), None],
    Some ''blob at A'',
    [UploadCall ''A'' (Inr (Some ''blob at A'')), OnUpload ''A'',
     MirrorCall ''B'' ''blob at A'' (Some 7) (Inl (Error ''AbortError'')),
     UploadCall ''B'' (Inr (Some ''blob at B'')), OnUpload ''B'']) \<and>
   map rq_signal (requests (history_of (multiServerUpload ex_mirror ex_helpers (fetch_of (cancelled (\<lambda>s. 200)))
      [''A'', ''B''] ''blob'' (ex_options\<lparr>signal := Some 7\<rparr>) []))) =
     [None, None, None, None] \<and>
   cancelled (\<lambda>s. 200) []
     (ex_request ''B'' ''PUT'' [] (Some ''blob'')\<lparr>rq_signal := Some 7\<rparr>) =
   Inl (Error ''AbortError'')"
  by (simp add: ex_multi_cancelled ex_history_cancelled)
     (simp add: ex_request_def cancelled_def)

theorem signal_reaches_mirrors_witness:
  "quiet (ex_options\<lparr>signal := Some 7\<rparr>) ''blob'' \<and>
   mirrored (snd (snd (outcome_of (multiServerUpload ex_mirror ex_helpers (fetch_of (cancelled (\<lambda>s. 200)))
      [''A'', ''B''] ''blob'' (ex_options\<lparr>signal := Some 7\<rparr>) [])))) =
     [(''B'', ''blob at A'', Some 7)] \<and>
   attempted (snd (snd (outcome_of (multiServerUpload ex_mirror ex_helpers (fetch_of (cancelled (\<lambda>s. 200)))
      [''A'', ''B''] ''blob'' (ex_options\<lparr>signal := Some 7\<rparr>) [])))) =
     [''A'', ''B'']"
  using signal_reaches_mirrors [where opts = "ex_options\<lparr>signal := Some 7\<rparr>"
      and blob = "''blob''" and mirrorBlob = ex_mirror and h = ex_helpers
      and fetch = "fetch_of (cancelled (\<lambda>s. 200))" and servers = "[''A'', ''B'']"
      and w = "[]", OF ex_quiet(2)]
  by (simp add: ex_quiet ex_multi_cancelled)

subsection \<open>Payments\<close>

text \<open>
  Claim C6.  In any upload the loop makes, at any moment of a run, to a server that
  answers the check with 402, with a payment callback configured: the callback is
  called exactly once, for this server, this blob and the payment request read from
  that answer; the \<^verbatim>\<open>X-Cashu\<close> values the upload sends are exactly the tokens it was
  given in this very call, each sent once; and the cache of the run is untouched.
  The handler the loop passes to \<^verbatim>\<open>uploadBlob\<close> and \<^verbatim>\<open>mirrorBlob\<close> keeps nothing: each
  call of it calls the caller's callback anew.
\<close>

theorem payment_per_challenge:
  assumes head: "\<And>w init. rq_method init = ''HEAD'' \<Longrightarrow> net w init = Inr res"
      and st: "status res = 402"
      and pay: "onPayment opts = Some (onPayment_of payer)"
  shows "(case uploadBlob h (\<lambda>init. outside (fetch_of net init)) server blob
            \<lparr>signal = None, auth = None,
             onPayment = Some (\<lambda>s b request. handlePaymentRequest blob opts s request),
             onAuth = Some (\<lambda>s b. handleAuthRequest h blob opts s)\<rparr> c of
          (r, c') \<Rightarrow>
            let new = drop (length (world c)) (world c')
            in authEvents c' = authEvents c \<and>
               take (length (world c)) (world c') = world c \<and>
               payments new =
                 [(server, blob, getPaymentRequestFromHeaders h (res_headers res))] \<and>
               List.map_filter (\<lambda>init. map_of (rq_headers init) ''X-Cashu'') (requests new) =
                 map (getEncodedToken h) (tokens new)) \<and>
         (\<forall>s request c.
            handlePaymentRequest blob opts s request c =
              (payer (world c) s blob request,
               c\<lparr>world := world c @
                    [AskedPayment s blob request (payer (world c) s blob request)]\<rparr>))"
proof (intro conjI allI)
  show "case uploadBlob h (\<lambda>init. outside (fetch_of net init)) server blob
            \<lparr>signal = None, auth = None,
             onPayment = Some (\<lambda>s b request. handlePaymentRequest blob opts s request),
             onAuth = Some (\<lambda>s b. handleAuthRequest h blob opts s)\<rparr> c of
          (r, c') \<Rightarrow>
            let new = drop (length (world c)) (world c')
            in authEvents c' = authEvents c \<and>
               take (length (world c)) (world c') = world c \<and>
               payments new =
                 [(server, blob, getPaymentRequestFromHeaders h (res_headers res))] \<and>
               List.map_filter (\<lambda>init. map_of (rq_headers init) ''X-Cashu'') (requests new) =
                 map (getEncodedToken h) (tokens new)"
    using st pay
    by (simp add: uploadBlob_unfold handlePaymentRequest_def outside_def run_simps head
          checkHeaders_def map_filter_simps
        split: sum.split)
next
  fix s request c
  show "handlePaymentRequest blob opts s request c =
      (payer (world c) s blob request,
       c\<lparr>world := world c @ [AskedPayment s blob request (payer (world c) s blob request)]\<rparr>)"
    using pay by (simp add: handlePaymentRequest_def outside_def onPayment_of_def)
qed

theorem payment_per_challenge_witness:
  "status (challenge 402) = 402 \<and>
   payments (history_of (multiServerUpload ex_mirror ex_helpers (fetch_of (answering (\<lambda>s. 402)))
      [''A'', ''C''] ''blob'' ex_options [])) =
     [(''A'', ''blob'', ''1 sat''), (''C'', ''blob'', ''1 sat'')] \<and>
   tokens (history_of (multiServerUpload ex_mirror ex_helpers (fetch_of (answering (\<lambda>s. 402)))
      [''A'', ''C''] ''blob'' ex_options [])) =
     [''token for A'', ''token for C''] \<and>
   List.map_filter (\<lambda>init. map_of (rq_headers init) ''X-Cashu'')
     (requests (history_of (multiServerUpload ex_mirror ex_helpers (fetch_of (answering (\<lambda>s. 402)))
      [''A'', ''C''] ''blob'' ex_options []))) =
     [''cashuA token for A'', ''cashuA token for C'']"
proof -
  have head: "rq_method init = ''HEAD'' \<Longrightarrow>
      answering (\<lambda>s. 402) w init = Inr (challenge 402)" for w init
    by (simp add: answering_def split: URL.splits)
  have st: "status (challenge 402) = 402"
    by (simp add: challenge_def)
  have pay: "onPayment ex_options = Some (onPayment_of ex_payer)"
    by (simp add: ex_options_def)
  show ?thesis
    using payment_per_challenge [where net = "answering (\<lambda>s. 402)" and res = "challenge 402"
        and opts = ex_options and payer = ex_payer and h = ex_helpers and server = "''A''"
        and blob = "''blob''" and c = "\<lparr>authEvents = [], world = []\<rparr>", OF head st pay]
    by (simp add: st ex_history_402 ex_request_def map_filter_simps)
qed

end
